theory Spec2Isabelle
  imports Complex_Main "HOL-Library.Stream"
begin

section \<open>Data model\<close>

text \<open>
  The sampler of \<^verbatim>\<open>ocdata/adsorptions.py\<close> and the class of \<^verbatim>\<open>ocdata/combined.py\<close>
  are sequences of calls into ase, pymatgen, catkit and numpy. The embedding keeps the code
  of the repository as HOL functions and takes what the libraries compute as parameters
  (the record \<open>extlib\<close>), what the module \<^verbatim>\<open>constants\<close> holds as the record \<open>constants\<close>, and what
  the pickle files hold as the record \<open>world\<close>. Python floats are modelled as reals; where
  numpy rounds a position, the double-precision rounding of the steps is kept.
\<close>

datatype error =
    ValueError string
  | IndexError
  | KeyError string
  | TypeError string
  | RuntimeError
  | AssertionError
  | ZeroDivisionError
  | OverflowError
  | FileNotFoundError string

definition ebind :: "error + 'a \<Rightarrow> ('a \<Rightarrow> error + 'b) \<Rightarrow> error + 'b" where
  "ebind m f = (case m of Inl e \<Rightarrow> Inl e | Inr x \<Rightarrow> f x)"

type_synonym vec3 = "real \<times> real \<times> real"

type_synonym miller = "int \<times> int \<times> int"

definition vx :: "vec3 \<Rightarrow> real" where "vx v = fst v"
definition vy :: "vec3 \<Rightarrow> real" where "vy v = fst (snd v)"
definition vz :: "vec3 \<Rightarrow> real" where "vz v = snd (snd v)"

text \<open>
  One atom of an \<^verbatim>\<open>ase.Atoms\<close> object, with the views of it that the libraries derive from
  the positions and the cell: the fractional coordinates of the pymatgen site
  (\<^verbatim>\<open>site.frac_coords\<close>, not wrapped), the scaled position of ase
  (\<^verbatim>\<open>get_scaled_positions\<close>) and the atomic weight of the species.
\<close>

record atom =
  symbol :: string
  weight :: real
  position :: vec3
  frac_coords :: vec3
  scaled_position :: vec3
  tag :: int

text \<open>
  An \<^verbatim>\<open>ase.Atoms\<close> object; a \<^verbatim>\<open>catkit.Gratoms\<close> is the same object with its surface-atom
  array and its edges (the connectivity matrix), a \<^verbatim>\<open>pymatgen.Structure\<close> the same sites.
  A \<^verbatim>\<open>FixAtoms\<close> constraint is its mask.
\<close>

record atoms =
  sites :: "atom list"
  cell :: "vec3 \<times> vec3 \<times> vec3"
  pbc :: "bool \<times> bool \<times> bool"
  constraints :: "bool list list"
  gratoms_surface_atoms :: "nat list"
  edges :: "nat list list"

text \<open>What the libraries compute. Each field names the call it stands for.\<close>

record extlib =
  voronoi_get_cn :: "atoms \<Rightarrow> nat \<Rightarrow> error + real"
    \<comment> \<open>\<^verbatim>\<open>VoronoiNN(tol=0.1).get_cn(struct, idx, use_weights=True)\<close>\<close>
  voronoi_get_nn_info :: "atoms \<Rightarrow> nat \<Rightarrow> error + nat list"
    \<comment> \<open>the \<^verbatim>\<open>site_index\<close> of each entry of
        \<^verbatim>\<open>VoronoiNN(allow_pathological=True, tol=0.2, cutoff=10).get_nn_info(structure, n=idx)\<close>\<close>
  get_distance :: "atoms \<Rightarrow> nat \<Rightarrow> nat \<Rightarrow> real"
    \<comment> \<open>\<^verbatim>\<open>adslab.get_distance(i, j, mic=True)\<close>\<close>
  equivalent_indices :: "atoms \<Rightarrow> nat list list"
    \<comment> \<open>\<^verbatim>\<open>SpacegroupAnalyzer(bulk_struct).get_symmetrized_structure().equivalent_indices\<close>\<close>
  repeat_atoms :: "atoms \<Rightarrow> int \<times> int \<times> int \<Rightarrow> atoms"
    \<comment> \<open>\<^verbatim>\<open>atoms.repeat(n_xyz)\<close>\<close>
  builder_add_adsorbate :: "atoms \<Rightarrow> atoms \<Rightarrow> int list \<Rightarrow> error + atoms list"
    \<comment> \<open>\<^verbatim>\<open>catkit.gen.adsorption.Builder(slab).add_adsorbate(ads, bonds=bonds, index=-1)\<close>\<close>
  connectivity_matrix :: "atoms \<Rightarrow> nat list list"
    \<comment> \<open>the \<^verbatim>\<open>NeighborList\<close> of the natural cutoffs, as a dense connectivity matrix\<close>
  conventional_standard_structure :: "atoms \<Rightarrow> atoms"
    \<comment> \<open>\<^verbatim>\<open>SpacegroupAnalyzer(struct, symprec=0.1).get_conventional_standard_structure()\<close>\<close>
  distinct_miller_indices :: "atoms \<Rightarrow> int \<Rightarrow> miller list"
    \<comment> \<open>\<^verbatim>\<open>get_symmetrically_distinct_miller_indices(struct, max_index)\<close>\<close>
  get_slabs :: "atoms \<Rightarrow> miller \<Rightarrow> (atoms \<times> real) list"
    \<comment> \<open>the slabs of the \<^verbatim>\<open>SlabGenerator\<close> for these Miller indices, each with its \<^verbatim>\<open>shift\<close>\<close>
  symmetry_z_xforms :: "atoms \<Rightarrow> real list"
    \<comment> \<open>\<^verbatim>\<open>affine_matrix[2, 2]\<close> of each symmetry operation of the structure\<close>
  wrap_atoms :: "atoms \<Rightarrow> atoms"
    \<comment> \<open>\<^verbatim>\<open>atoms.wrap()\<close>\<close>
  rotate_atoms :: "atoms \<Rightarrow> atoms"
    \<comment> \<open>\<^verbatim>\<open>atoms.rotate(180, 'x', rotate_cell=True, center='COM')\<close>\<close>

text \<open>The module \<^verbatim>\<open>constants\<close> is not part of the sources at hand: its values are parameters.\<close>

record constants =
  COVALENT_RADIUS :: "string \<rightharpoonup> real"
  MAX_MILLER :: int
  MIN_XY :: real

section \<open>Python and numpy primitives\<close>

text \<open>\<^verbatim>\<open>str\<close> of an integer: its decimal digits, with a minus sign when negative.\<close>

fun str_nat :: "nat \<Rightarrow> string" where
  "str_nat n = (if n < 10 then [''0123456789'' ! n]
                else str_nat (n div 10) @ [''0123456789'' ! (n mod 10)])"

declare str_nat.simps [simp del]

definition str_int :: "int \<Rightarrow> string" where
  "str_int i = (if i < 0 then CHR ''-'' # str_nat (nat (- i)) else str_nat (nat i))"

text \<open>\<^verbatim>\<open>max\<close> and \<open>min\<close> of a sequence raise \<^verbatim>\<open>ValueError\<close> on an empty one.\<close>

fun py_max :: "real list \<Rightarrow> error + real" where
  "py_max [] = Inl (ValueError ''max() arg is an empty sequence'')"
| "py_max (x # xs) = Inr (fold max xs x)"

definition py_min_set :: "real set \<Rightarrow> error + real" where
  "py_min_set A = (if A = {} then Inl (ValueError ''min() arg is an empty sequence'')
                   else Inr (Min A))"

text \<open>\<^verbatim>\<open>round(x, n)\<close>: to the nearest multiple of \<open>10\<^sup>-\<^sup>n\<close>, a tie to the even one.\<close>

definition round_half_even :: "real \<Rightarrow> int" where
  "round_half_even x =
     (let f = \<lfloor>x\<rfloor>; d = x - of_int f
      in if d < 1 / 2 then f else if 1 / 2 < d then f + 1 else if even f then f else f + 1)"

definition py_round :: "real \<Rightarrow> nat \<Rightarrow> real" where
  "py_round x n = of_int (round_half_even (x * 10 ^ n)) / 10 ^ n"

text \<open>
  The double nearest to a real number, a tie to the even significand of 53 bits
  (overflow and subnormal numbers are left out: coordinates are far from both).
\<close>

definition float64 :: "real \<Rightarrow> real" where
  "float64 x =
     (if x = 0 then 0
      else let e = \<lfloor>log 2 \<bar>x\<bar>\<rfloor> - 52
           in of_int (round_half_even (x / 2 powr of_int e)) * 2 powr of_int e)"

text \<open>
  \<^verbatim>\<open>round(x, n)\<close> of a numpy float, as \<^verbatim>\<open>atom.position\<close> holds them: numpy multiplies by
  \<open>10\<^sup>n\<close>, rounds to the nearest integer (a tie to the even one) and divides, each step in
  double precision. The product is rounded before the integer is taken, so the result can
  differ from \<open>py_round\<close> of the same number.
\<close>

definition np_round :: "real \<Rightarrow> nat \<Rightarrow> real" where
  "np_round x n = float64 (of_int (round_half_even (float64 (x * 10 ^ n))) / 10 ^ n)"

text \<open>\<^verbatim>\<open>xs[i]\<close>: an index from \<open>-len\<close> to \<open>len - 1\<close>, the negative ones read from the end.\<close>

definition py_get :: "'a list \<Rightarrow> int \<Rightarrow> error + 'a" where
  "py_get xs i =
     (if 0 \<le> i \<and> i < int (length xs) then Inr (xs ! nat i)
      else if i < 0 \<and> 0 \<le> int (length xs) + i then Inr (xs ! nat (int (length xs) + i))
      else Inl IndexError)"

text \<open>
  \<^verbatim>\<open>np.random.choice(n)\<close> for an integer \<open>n\<close>: an index of \<^verbatim>\<open>range(n)\<close>, each one equally
  likely, and a \<^verbatim>\<open>ValueError\<close> when \<open>n\<close> is 0. The argument \<open>r\<close> is the raw value the
  generator draws; every index below \<open>n\<close> is the outcome of exactly one raw value below \<open>n\<close>.
\<close>

definition random_choice :: "nat \<Rightarrow> nat \<Rightarrow> error + nat" where
  "random_choice n r =
     (if n = 0 then Inl (ValueError ''a must be greater than 0 unless no samples are taken'')
      else Inr (r mod n))"

text \<open>
  \<^verbatim>\<open>np.random.choice(a, p=weights)\<close>: an element of \<open>a\<close> whose probability is positive;
  numpy refuses negative probabilities.
\<close>

definition random_choice_p :: "'a list \<Rightarrow> real list \<Rightarrow> nat \<Rightarrow> error + 'a" where
  "random_choice_p a p r =
     (if a = [] then Inl (ValueError ''a cannot be empty'')
      else if length a \<noteq> length p then Inl (ValueError ''a and p must have same size'')
      else if \<exists>w \<in> set p. w < 0 then Inl (ValueError ''probabilities are not non-negative'')
      else let support = map fst (filter (\<lambda>(k, w). 0 < w) (zip a p))
           in if support = [] then Inl (ValueError ''probabilities do not sum to 1'')
              else Inr (support ! (r mod length support)))"

text \<open>\<^verbatim>\<open>math.isclose(a, b)\<close> with its default tolerances (relative \<open>10\<^sup>-\<^sup>9\<close>, absolute 0).\<close>

definition isclose :: "real \<Rightarrow> real \<Rightarrow> bool" where
  "isclose a b = (\<bar>a - b\<bar> \<le> max \<bar>a\<bar> \<bar>b\<bar> / 10 ^ 9)"

text \<open>\<^verbatim>\<open>np.linalg.norm\<close> of a vector of three components.\<close>

definition linalg_norm :: "vec3 \<Rightarrow> real" where
  "linalg_norm v = sqrt (vx v * vx v + vy v * vy v + vz v * vz v)"

section \<open>Tagging the surface atoms\<close>

text \<open>
  \<^verbatim>\<open>_find_surface_atoms_by_height\<close>. The height of the cell is a numpy float, so a
  division by a zero height gives infinity and the threshold is minus infinity: no scaled
  position is below it.
\<close>

definition find_surface_atoms_by_height :: "atoms \<Rightarrow> error + int list" where
  "find_surface_atoms_by_height surface_atoms =
     (let unit_cell_height = linalg_norm (snd (snd (cell surface_atoms)));
          scaled_positions = map scaled_position (sites surface_atoms)
      in case py_max (map vz scaled_positions) of
           Inl e \<Rightarrow> Inl e
         | Inr scaled_max_height \<Rightarrow>
             if unit_cell_height = 0 then Inr (map (\<lambda>p. 1) scaled_positions)
             else let scaled_threshold = scaled_max_height - 2 / unit_cell_height
                  in Inr (map (\<lambda>p. if vz p < scaled_threshold then 0 else 1) scaled_positions))"

text \<open>
  \<^verbatim>\<open>calculate_center_of_mass\<close>: \<^verbatim>\<open>np.average\<close> of the fractional coordinates with the atomic
  weights; numpy raises \<^verbatim>\<open>ZeroDivisionError\<close> when the weights sum to zero.
\<close>

definition calculate_center_of_mass :: "atoms \<Rightarrow> error + vec3" where
  "calculate_center_of_mass struct =
     (let weights = map weight (sites struct);
          avg = (\<lambda>c. (\<Sum>s \<leftarrow> sites struct. weight s * c (frac_coords s)) / sum_list weights)
      in if sum_list weights = 0 then Inl ZeroDivisionError
         else Inr (avg vx, avg vy, avg vz))"

text \<open>
  \<^verbatim>\<open>calculate_coordination_of_bulk_atoms\<close>: a \<^verbatim>\<open>defaultdict(set)\<close>, here a function into
  sets whose default is the empty set. The loop visits the first index of every class of
  equivalent sites.
\<close>

fun bulk_cn_loop ::
  "extlib \<Rightarrow> atoms \<Rightarrow> (string \<Rightarrow> real set) \<Rightarrow> nat list list \<Rightarrow> error + (string \<Rightarrow> real set)" where
  "bulk_cn_loop lib sym_struct bulk_cn_dict [] = Inr bulk_cn_dict"
| "bulk_cn_loop lib sym_struct bulk_cn_dict (idx # rest) =
     (case py_get idx 0 of
        Inl e \<Rightarrow> Inl e
      | Inr i \<Rightarrow>
          (case py_get (sites sym_struct) (int i) of
             Inl e \<Rightarrow> Inl e
           | Inr site \<Rightarrow>
               (case voronoi_get_cn lib sym_struct i of
                  Inl e \<Rightarrow> Inl e
                | Inr cn \<Rightarrow>
                    bulk_cn_loop lib sym_struct
                      (bulk_cn_dict (symbol site := insert (py_round cn 5) (bulk_cn_dict (symbol site))))
                      rest)))"

definition calculate_coordination_of_bulk_atoms ::
  "extlib \<Rightarrow> atoms \<Rightarrow> error + (string \<Rightarrow> real set)" where
  "calculate_coordination_of_bulk_atoms lib bulk_atoms =
     bulk_cn_loop lib bulk_atoms (\<lambda>s. {}) (equivalent_indices lib bulk_atoms)"

text \<open>
  \<^verbatim>\<open>_find_surface_atoms_with_voronoi\<close>. The handler catches \<^verbatim>\<open>RuntimeError\<close> only: the
  \<^verbatim>\<open>ValueError\<close> of \<^verbatim>\<open>min\<close> on the empty set of an element the bulk does not have, and any
  other error of \<^verbatim>\<open>get_cn\<close>, leave the function.
\<close>

fun voronoi_loop ::
  "extlib \<Rightarrow> atoms \<Rightarrow> vec3 \<Rightarrow> (string \<Rightarrow> real set) \<Rightarrow> nat \<Rightarrow> atom list \<Rightarrow> error + int list" where
  "voronoi_loop lib surface_struct center_of_mass bulk_cn_dict idx [] = Inr []"
| "voronoi_loop lib surface_struct center_of_mass bulk_cn_dict idx (site # rest) =
     (case (if vz center_of_mass < vz (frac_coords site)
            then (case voronoi_get_cn lib surface_struct idx of
                    Inl RuntimeError \<Rightarrow> Inr 1
                  | Inl e \<Rightarrow> Inl e
                  | Inr cn \<Rightarrow>
                      (case py_min_set (bulk_cn_dict (symbol site)) of
                         Inl e \<Rightarrow> Inl e
                       | Inr m \<Rightarrow> if py_round cn 5 < m then Inr 1 else Inr 0))
            else Inr 0) of
        Inl e \<Rightarrow> Inl e
      | Inr t \<Rightarrow>
          (case voronoi_loop lib surface_struct center_of_mass bulk_cn_dict (Suc idx) rest of
             Inl e \<Rightarrow> Inl e
           | Inr ts \<Rightarrow> Inr (t # ts)))"

definition find_surface_atoms_with_voronoi :: "extlib \<Rightarrow> atoms \<Rightarrow> atoms \<Rightarrow> error + int list" where
  "find_surface_atoms_with_voronoi lib bulk_atoms surface_atoms =
     (case calculate_center_of_mass surface_atoms of
        Inl e \<Rightarrow> Inl e
      | Inr center_of_mass \<Rightarrow>
          (case calculate_coordination_of_bulk_atoms lib bulk_atoms of
             Inl e \<Rightarrow> Inl e
           | Inr bulk_cn_dict \<Rightarrow>
               voronoi_loop lib surface_atoms center_of_mass bulk_cn_dict 0 (sites surface_atoms)))"

text \<open>\<^verbatim>\<open>Atoms.set_tags\<close> with a list: ase refuses a list of another length.\<close>

definition set_tags :: "atoms \<Rightarrow> int list \<Rightarrow> error + atoms" where
  "set_tags a tags =
     (if length tags \<noteq> length (sites a)
      then Inl (ValueError ''Array has wrong length'')
      else Inr (a\<lparr>sites := map (\<lambda>(s, t). s\<lparr>tag := t\<rparr>) (zip (sites a) tags)\<rparr>))"

text \<open>\<^verbatim>\<open>tag_surface_atoms\<close> mutates the surface; the model returns the tagged surface.\<close>

definition tag_surface_atoms :: "extlib \<Rightarrow> atoms \<Rightarrow> atoms \<Rightarrow> error + atoms" where
  "tag_surface_atoms lib bulk_atoms surface_atoms =
     (case find_surface_atoms_with_voronoi lib bulk_atoms surface_atoms of
        Inl e \<Rightarrow> Inl e
      | Inr voronoi_tags \<Rightarrow>
          (case find_surface_atoms_by_height surface_atoms of
             Inl e \<Rightarrow> Inl e
           | Inr height_tags \<Rightarrow>
               set_tags surface_atoms
                 (map (\<lambda>(v_tag, h_tag). max v_tag h_tag) (zip voronoi_tags height_tags))))"

section \<open>The pickle files\<close>

text \<open>
  The files the sampler unpickles, by path: the inverted index of the bulks (number of
  elements to rows of bulk, MPID, sampling string and index in the flattened array), the
  adsorbates (atoms, SMILES string, bond indices) and the precomputed enumerations of
  surfaces (structure, Miller indices, shift, top).
\<close>

type_synonym bulk_entry = "atoms \<times> string \<times> string \<times> int"

type_synonym adsorbate_entry = "atoms \<times> string \<times> int list"

type_synonym surface_entry = "atoms \<times> miller \<times> real \<times> bool"

record world =
  bulk_files :: "string \<rightharpoonup> (int \<rightharpoonup> bulk_entry list)"
  adsorbate_files :: "string \<rightharpoonup> adsorbate_entry list"
  enumeration_files :: "string \<rightharpoonup> surface_entry list"

section \<open>Choosing the bulk and the surface\<close>

text \<open>\<^verbatim>\<open>choose_n_elems\<close>: the dictionary of weights is an association list in insertion order.\<close>

definition choose_n_elems :: "(int \<times> real) list option \<Rightarrow> nat \<Rightarrow> error + int \<times> string" where
  "choose_n_elems n_cat_elems_weights r =
     (let d = (case n_cat_elems_weights of
                 None \<Rightarrow> [(1, 5 / 100), (2, 65 / 100), (3, 3 / 10)]
               | Some w \<Rightarrow> w);
          n_elems = map fst d;
          weights = map snd d
      in if \<not> isclose (sum_list weights) 1 then Inl AssertionError
         else case random_choice_p n_elems weights r of
                Inl e \<Rightarrow> Inl e
              | Inr n_elem \<Rightarrow> Inr (n_elem, str_int n_elem @ ''/'' @ str_nat (length n_elems)))"

text \<open>
  \<^verbatim>\<open>choose_bulk_pkl\<close>. The handler of \<^verbatim>\<open>IndexError\<close> formats its message with three
  arguments for two conversions, which is a \<^verbatim>\<open>TypeError\<close>.
\<close>

definition choose_bulk_pkl ::
  "world \<Rightarrow> string \<Rightarrow> int \<Rightarrow> nat \<Rightarrow> error + atoms \<times> string \<times> int \<times> string" where
  "choose_bulk_pkl w bulk_database n_elems r =
     (case bulk_files w bulk_database of
        None \<Rightarrow> Inl (FileNotFoundError bulk_database)
      | Some inv_index \<Rightarrow>
          (case inv_index n_elems of
             None \<Rightarrow> Inl AssertionError
           | Some rows \<Rightarrow>
               (case ebind (random_choice (length rows) r) (\<lambda>row_bulk_index.
                     ebind (py_get rows (int row_bulk_index))
                       (\<lambda>(bulk, mpid, sampling_string, index_in_flattened_array).
                          Inr (bulk, mpid, index_in_flattened_array, sampling_string))) of
                  Inl IndexError \<Rightarrow>
                    Inl (TypeError ''not all arguments converted during string formatting'')
                | Inl e \<Rightarrow> Inl e
                | Inr res \<Rightarrow> Inr res)))"

definition precomputed_path :: string where
  "precomputed_path =
     ''/private/home/sidgoyal/Open-Catalyst-Dataset/ocdata/precomputed_structure_info/''"

text \<open>
  \<^verbatim>\<open>read_from_precomputed_enumerations\<close>: the directory ends with a slash and the name
  starts with a digit or a minus sign, so \<^verbatim>\<open>os.path.join\<close> appends the name.
\<close>

definition read_from_precomputed_enumerations :: "world \<Rightarrow> int \<Rightarrow> error + surface_entry list" where
  "read_from_precomputed_enumerations w index =
     (let p = precomputed_path @ str_int index @ ''.pkl''
      in case enumeration_files w p of
           None \<Rightarrow> Inl (FileNotFoundError p)
         | Some surfaces_info \<Rightarrow> Inr surfaces_info)"

text \<open>
  \<^verbatim>\<open>math.ceil\<close> of a quotient by a numpy float: a zero length gives infinity (or NaN), which
  \<^verbatim>\<open>math.ceil\<close> cannot convert.
\<close>

definition ceil_div :: "real \<Rightarrow> real \<Rightarrow> error + int" where
  "ceil_div a b =
     (if b = 0
      then (if a = 0 then Inl (ValueError ''cannot convert float NaN to integer'')
            else Inl OverflowError)
      else Inr \<lceil>a / b\<rceil>)"

definition tile_atoms :: "extlib \<Rightarrow> constants \<Rightarrow> atoms \<Rightarrow> error + atoms" where
  "tile_atoms lib c a =
     (let x_length = linalg_norm (fst (cell a));
          y_length = linalg_norm (fst (snd (cell a)))
      in ebind (ceil_div (MIN_XY c) x_length) (\<lambda>nx.
         ebind (ceil_div (MIN_XY c) y_length) (\<lambda>ny.
           Inr (repeat_atoms lib a (nx, ny, 1)))))"

definition choose_surface_pkl ::
  "extlib \<Rightarrow> constants \<Rightarrow> world \<Rightarrow> atoms \<Rightarrow> int \<Rightarrow> nat
     \<Rightarrow> error + atoms \<times> miller \<times> real \<times> bool \<times> string" where
  "choose_surface_pkl lib c w bulk_atoms index_in_bulk_atoms r =
     ebind (read_from_precomputed_enumerations w index_in_bulk_atoms) (\<lambda>surfaces_info.
       let total_surfaces_possible = length surfaces_info
       in ebind (random_choice total_surfaces_possible r) (\<lambda>index_surfaces_info.
          ebind (py_get surfaces_info (int index_surfaces_info))
            (\<lambda>(surface_struct, millers, shift, top).
               ebind (tile_atoms lib c surface_struct) (\<lambda>surface_atoms.
               ebind (tag_surface_atoms lib bulk_atoms surface_atoms) (\<lambda>tagged.
                 Inr (tagged, millers, shift, top,
                      str_nat index_surfaces_info @ ''/'' @ str_nat total_surfaces_possible))))))"

section \<open>Enumerating the surfaces\<close>

definition standardize_bulk :: "extlib \<Rightarrow> atoms \<Rightarrow> atoms" where
  "standardize_bulk lib a = conventional_standard_structure lib a"

definition is_structure_invertible :: "extlib \<Rightarrow> atoms \<Rightarrow> bool" where
  "is_structure_invertible lib structure = list_ex (\<lambda>z_xform. z_xform = - 1) (symmetry_z_xforms lib structure)"

definition vneg :: "vec3 \<Rightarrow> vec3" where
  "vneg v = (- vx v, - vy v, - vz v)"

definition flip_struct :: "extlib \<Rightarrow> atoms \<Rightarrow> atoms" where
  "flip_struct lib struct =
     (let a0 = rotate_atoms lib (wrap_atoms lib struct);
          a1 = (case cell a0 of (c0, c1, c2) \<Rightarrow>
                  if vz c2 < 0 then a0\<lparr>cell := (c0, c1, vneg c2)\<rparr> else a0);
          a2 = (case cell a1 of (c0, c1, c2) \<Rightarrow>
                  if vx c0 * vy c1 - vy c0 * vx c1 < 0 then a1\<lparr>cell := (c0, vneg c1, c2)\<rparr> else a1)
      in wrap_atoms lib a2)"

text \<open>
  \<^verbatim>\<open>enumerate_surfaces\<close>: the loop runs over the Miller indices up to the constant
  \<^verbatim>\<open>MAX_MILLER\<close>; the argument \<^verbatim>\<open>max_miller\<close> is not read.
\<close>

definition enumerate_surfaces ::
  "extlib \<Rightarrow> constants \<Rightarrow> atoms \<Rightarrow> int \<Rightarrow> surface_entry list" where
  "enumerate_surfaces lib c bulk_atoms max_miller =
     (let bulk_struct = standardize_bulk lib bulk_atoms
      in concat (map (\<lambda>millers.
           let slabs = get_slabs lib bulk_struct millers;
               flipped_slabs_info =
                 map (\<lambda>(slab, shift). (flip_struct lib slab, millers, shift, False))
                   (filter (\<lambda>(slab, shift). is_structure_invertible lib slab = False) slabs);
               slabs_info = map (\<lambda>(slab, shift). (slab, millers, shift, True)) slabs
           in slabs_info @ flipped_slabs_info)
         (distinct_miller_indices lib bulk_struct (MAX_MILLER c))))"

section \<open>Choosing and placing the adsorbate\<close>

definition choose_adsorbate_pkl ::
  "world \<Rightarrow> string \<Rightarrow> nat \<Rightarrow> error + atoms \<times> string \<times> int list \<times> string" where
  "choose_adsorbate_pkl w adsorbate_database r =
     (case adsorbate_files w adsorbate_database of
        None \<Rightarrow> Inl (FileNotFoundError adsorbate_database)
      | Some inv_index \<Rightarrow>
          ebind (random_choice (length inv_index) r) (\<lambda>element.
            let adsorbate_sampling_string = str_nat element @ ''/'' @ str_nat (length inv_index)
            in ebind (py_get inv_index (int element)) (\<lambda>(ads, smiles, bond_indices).
                 Inr (ads, smiles, bond_indices, adsorbate_sampling_string))))"

definition get_connectivity :: "extlib \<Rightarrow> atoms \<Rightarrow> nat list list" where
  "get_connectivity lib adsorbate = connectivity_matrix lib adsorbate"

definition convert_adsorbate_atoms_to_gratoms :: "extlib \<Rightarrow> atoms \<Rightarrow> error + atoms" where
  "convert_adsorbate_atoms_to_gratoms lib adsorbate =
     (let connectivity = get_connectivity lib adsorbate;
          adsorbate_gratoms = adsorbate\<lparr>edges := connectivity\<rparr>
      in set_tags adsorbate_gratoms (replicate (length (sites adsorbate_gratoms)) 2))"

text \<open>
  \<^verbatim>\<open>is_config_reasonable\<close>: the inner loop over the slab neighbours of one adsorbate atom,
  then the loop over the adsorbate atoms. A missing element of \<^verbatim>\<open>COVALENT_RADIUS\<close> is a
  \<^verbatim>\<open>KeyError\<close>.
\<close>

definition covalent_radius :: "constants \<Rightarrow> string \<Rightarrow> error + real" where
  "covalent_radius c el = (case COVALENT_RADIUS c el of None \<Rightarrow> Inl (KeyError el) | Some x \<Rightarrow> Inr x)"

fun slab_nn_loop :: "extlib \<Rightarrow> constants \<Rightarrow> atoms \<Rightarrow> nat \<Rightarrow> nat list \<Rightarrow> error + bool" where
  "slab_nn_loop lib c adslab idx [] = Inr True"
| "slab_nn_loop lib c adslab idx (nn # rest) =
     ebind (py_get (sites adslab) (int nn)) (\<lambda>nn_site.
     ebind (covalent_radius c (symbol (sites adslab ! idx))) (\<lambda>r_ads.
     ebind (covalent_radius c (symbol nn_site)) (\<lambda>r_nn.
       let cov_bond_thres = 8 / 10 * (r_ads + r_nn) / 100;
           actual_dist = get_distance lib adslab idx nn
       in if actual_dist < cov_bond_thres then Inr False
          else slab_nn_loop lib c adslab idx rest)))"

fun adsorbate_loop :: "extlib \<Rightarrow> constants \<Rightarrow> atoms \<Rightarrow> nat list \<Rightarrow> nat list \<Rightarrow> error + bool" where
  "adsorbate_loop lib c adslab adsorbate_indices [] = Inr True"
| "adsorbate_loop lib c adslab adsorbate_indices (idx # rest) =
     (let coord = frac_coords (sites adslab ! idx)
      in if (vx coord < 0 \<or> 1 < vx coord) \<or> (vy coord < 0 \<or> 1 < vy coord)
              \<or> (vz coord < 0 \<or> 1 < vz coord)
         then Inr False
         else ebind (voronoi_get_nn_info lib adslab idx) (\<lambda>nearneighbors.
                let slab_nn = filter (\<lambda>nn. nn \<notin> set adsorbate_indices) nearneighbors
                in ebind (slab_nn_loop lib c adslab idx slab_nn) (\<lambda>ok.
                     if ok then adsorbate_loop lib c adslab adsorbate_indices rest
                     else Inr False)))"

definition adsorbate_indices_of :: "atoms \<Rightarrow> nat list" where
  "adsorbate_indices_of adslab =
     filter (\<lambda>i. tag (sites adslab ! i) = 2) [0 ..< length (sites adslab)]"

definition is_config_reasonable :: "extlib \<Rightarrow> constants \<Rightarrow> atoms \<Rightarrow> error + bool" where
  "is_config_reasonable lib c adslab =
     (let adsorbate_indices = adsorbate_indices_of adslab
      in adsorbate_loop lib c adslab adsorbate_indices adsorbate_indices)"

text \<open>The list comprehension that keeps the reasonable configurations; an error leaves it.\<close>

fun filter_reasonable :: "extlib \<Rightarrow> constants \<Rightarrow> atoms list \<Rightarrow> error + atoms list" where
  "filter_reasonable lib c [] = Inr []"
| "filter_reasonable lib c (s # rest) =
     ebind (is_config_reasonable lib c s) (\<lambda>ok.
     ebind (filter_reasonable lib c rest) (\<lambda>kept.
       Inr (if ok = True then s # kept else kept)))"

definition add_adsorbate_onto_surface ::
  "extlib \<Rightarrow> constants \<Rightarrow> atoms \<Rightarrow> atoms \<Rightarrow> int list \<Rightarrow> nat \<Rightarrow> error + atoms \<times> string" where
  "add_adsorbate_onto_surface lib c surface adsorbate bond_indices r =
     (let surface_atom_indices =
            filter (\<lambda>i. tag (sites surface ! i) = 1) [0 ..< length (sites surface)];
          surface_gratoms =
            surface\<lparr>gratoms_surface_atoms := surface_atom_indices, pbc := (True, True, False)\<rparr>
      in ebind (convert_adsorbate_atoms_to_gratoms lib adsorbate) (\<lambda>adsorbate_gratoms.
         ebind (builder_add_adsorbate lib surface_gratoms adsorbate_gratoms bond_indices)
           (\<lambda>adsorbed_surfaces.
         ebind (filter_reasonable lib c adsorbed_surfaces) (\<lambda>reasonable_adsorbed_surfaces.
         ebind (random_choice (length reasonable_adsorbed_surfaces) r)
           (\<lambda>reasonable_adsorbed_surface_index.
         ebind (py_get reasonable_adsorbed_surfaces (int reasonable_adsorbed_surface_index))
           (\<lambda>adsorbed_surface.
              Inr (adsorbed_surface,
                   str_nat reasonable_adsorbed_surface_index @ ''/''
                     @ str_nat (length reasonable_adsorbed_surfaces))))))))"

text \<open>\<^verbatim>\<open>constrain_surface\<close> works on a copy and appends a \<^verbatim>\<open>FixAtoms\<close> mask.\<close>

definition constrain_surface :: "atoms \<Rightarrow> atoms" where
  "constrain_surface a =
     a\<lparr>constraints := constraints a @ [map (\<lambda>s. if tag s = 0 then True else False) (sites a)]\<rparr>"

fun find_sites :: "atoms \<Rightarrow> atoms \<Rightarrow> int list \<Rightarrow> error + vec3 list" where
  "find_sites surface adsorbed_surface [] = Inr []"
| "find_sites surface adsorbed_surface (idx # rest) =
     (let binding_atom_index = int (length (sites surface)) + idx
      in ebind (py_get (sites adsorbed_surface) binding_atom_index) (\<lambda>a.
           let positions = (np_round (vx (position a)) 2, np_round (vy (position a)) 2,
                            np_round (vz (position a)) 2)
           in ebind (find_sites surface adsorbed_surface rest) (\<lambda>more.
                Inr (positions # more))))"

section \<open>The sampler\<close>

text \<open>
  The two dictionaries \<^verbatim>\<open>sample_structures\<close> returns, as records of their three keys.
\<close>

record adsorbed_bulk_dict =
  adsorbed_bulk_atomsobject :: atoms
  adsorbed_bulk_metadata :: "string \<times> miller \<times> real \<times> bool \<times> string \<times> vec3 list"
  adsorbed_bulk_samplingstr :: string

record bulk_dict =
  bulk_atomsobject :: atoms
  bulk_metadata :: "string \<times> miller \<times> real \<times> bool"
  bulk_samplingstr :: string

text \<open>
  The generator of \<^verbatim>\<open>np.random\<close> is global state: it is the stream of the raw values it
  will draw, and each call of \<^verbatim>\<open>np.random.choice\<close> takes the head and leaves the tail. Each
  of the five choosers calls it once. The calls of \<^verbatim>\<open>sample_structures\<close> are recorded in
  the order the body makes them: a call that raises ends the run, a call that returns hands
  its result, and the generator it left, to the rest of the body.
\<close>

datatype call =
    Call_choose_n_elems
  | Call_choose_bulk_pkl
  | Call_choose_surface_pkl
  | Call_choose_adsorbate_pkl
  | Call_add_adsorbate_onto_surface
  | Call_constrain_surface_adsorbed
  | Call_constrain_surface_bare
  | Call_find_sites

definition then_call ::
  "call \<Rightarrow> error + 'a \<Rightarrow> ('a \<Rightarrow> call list \<times> (error + 'b)) \<Rightarrow> call list \<times> (error + 'b)" where
  "then_call s m k =
     (case m of
        Inl e \<Rightarrow> ([s], Inl e)
      | Inr x \<Rightarrow> (case k x of (tr, res) \<Rightarrow> (s # tr, res)))"

definition then_draw ::
  "call \<Rightarrow> nat stream \<Rightarrow> (nat \<Rightarrow> error + 'a) \<Rightarrow> (nat stream \<Rightarrow> 'a \<Rightarrow> call list \<times> (error + 'b))
     \<Rightarrow> call list \<times> (error + 'b)" where
  "then_draw s rng m k =
     (case m (shd rng) of
        Inl e \<Rightarrow> ([s], Inl e)
      | Inr x \<Rightarrow> (case k (stl rng) x of (tr, res) \<Rightarrow> (s # tr, res)))"

definition sample_structures_calls ::
  "extlib \<Rightarrow> constants \<Rightarrow> world \<Rightarrow> string \<Rightarrow> string \<Rightarrow> (int \<times> real) list option \<Rightarrow> nat stream
     \<Rightarrow> call list \<times> (error + adsorbed_bulk_dict \<times> bulk_dict)" where
  "sample_structures_calls lib c w bulk_database adsorbate_database n_cat_elems_weights rng0 =
     then_draw Call_choose_n_elems rng0 (choose_n_elems n_cat_elems_weights)
       (\<lambda>rng1 (n_elems, elem_sampling_str).
     then_draw Call_choose_bulk_pkl rng1 (choose_bulk_pkl w bulk_database n_elems)
       (\<lambda>rng2 (bulk, mpid, index_of_bulk_atoms, bulk_sampling_str0).
     then_draw Call_choose_surface_pkl rng2
       (choose_surface_pkl lib c w bulk index_of_bulk_atoms)
       (\<lambda>rng3 (surface0, millers, shift0, top, surface_sampling_str).
     then_draw Call_choose_adsorbate_pkl rng3
       (choose_adsorbate_pkl w adsorbate_database)
       (\<lambda>rng4 (adsorbate, smiles, bond_indices, adsorbate_sampling_str).
     then_draw Call_add_adsorbate_onto_surface rng4
       (add_adsorbate_onto_surface lib c surface0 adsorbate bond_indices)
       (\<lambda>rng5 (adsorbed_surface0, adsorbed_surface_sampling_str).
     then_call Call_constrain_surface_adsorbed (Inr (constrain_surface adsorbed_surface0))
       (\<lambda>adsorbed_surface.
     then_call Call_constrain_surface_bare (Inr (constrain_surface surface0))
       (\<lambda>surface.
     let shift = py_round shift0 3
     in then_call Call_find_sites (find_sites surface adsorbed_surface bond_indices)
       (\<lambda>found_sites.
          let ads_sampling_str = adsorbate_sampling_str @ ''_'' @ adsorbed_surface_sampling_str;
              bulk_sampling_str =
                elem_sampling_str @ ''_'' @ bulk_sampling_str0 @ ''_'' @ surface_sampling_str
          in ([], Inr (\<lparr>adsorbed_bulk_atomsobject = adsorbed_surface,
                         adsorbed_bulk_metadata = (mpid, millers, shift, top, smiles, found_sites),
                         adsorbed_bulk_samplingstr = bulk_sampling_str @ ''_'' @ ads_sampling_str\<rparr>,
                       \<lparr>bulk_atomsobject = surface,
                         bulk_metadata = (mpid, millers, shift, top),
                         bulk_samplingstr = bulk_sampling_str\<rparr>))))))))))"

definition sample_structures ::
  "extlib \<Rightarrow> constants \<Rightarrow> world \<Rightarrow> string \<Rightarrow> string \<Rightarrow> (int \<times> real) list option \<Rightarrow> nat stream
     \<Rightarrow> error + adsorbed_bulk_dict \<times> bulk_dict" where
  "sample_structures lib c w bulk_database adsorbate_database n_cat_elems_weights rng =
     snd (sample_structures_calls lib c w bulk_database adsorbate_database n_cat_elems_weights rng)"

section \<open>The class Combined\<close>

text \<open>
  The two attributes that \<^verbatim>\<open>Combined.add_adsorbate_onto_surface\<close> sets; an attribute that
  is not set yet is \<open>None\<close>. The methods are translated from \<^verbatim>\<open>combined.py\<close>, each under
  the name of the method with the prefix of the class.
\<close>

record combined =
  adsorbed_surface_atoms :: "atoms option"
  adsorbed_surface_sampling_str :: "string option"

definition Combined_get_connectivity :: "extlib \<Rightarrow> atoms \<Rightarrow> nat list list" where
  "Combined_get_connectivity lib adsorbate = connectivity_matrix lib adsorbate"

definition Combined_convert_adsorbate_atoms_to_gratoms :: "extlib \<Rightarrow> atoms \<Rightarrow> error + atoms" where
  "Combined_convert_adsorbate_atoms_to_gratoms lib adsorbate =
     (let connectivity = Combined_get_connectivity lib adsorbate;
          adsorbate_gratoms = adsorbate\<lparr>edges := connectivity\<rparr>
      in set_tags adsorbate_gratoms (replicate (length (sites adsorbate_gratoms)) 2))"

fun Combined_slab_nn_loop ::
  "extlib \<Rightarrow> constants \<Rightarrow> atoms \<Rightarrow> nat \<Rightarrow> nat list \<Rightarrow> error + bool" where
  "Combined_slab_nn_loop lib c adslab idx [] = Inr True"
| "Combined_slab_nn_loop lib c adslab idx (nn # rest) =
     ebind (py_get (sites adslab) (int nn)) (\<lambda>nn_site.
     ebind (covalent_radius c (symbol (sites adslab ! idx))) (\<lambda>r_ads.
     ebind (covalent_radius c (symbol nn_site)) (\<lambda>r_nn.
       let cov_bond_thres = 8 / 10 * (r_ads + r_nn) / 100;
           actual_dist = get_distance lib adslab idx nn
       in if actual_dist < cov_bond_thres then Inr False
          else Combined_slab_nn_loop lib c adslab idx rest)))"

fun Combined_adsorbate_loop ::
  "extlib \<Rightarrow> constants \<Rightarrow> atoms \<Rightarrow> nat list \<Rightarrow> nat list \<Rightarrow> error + bool" where
  "Combined_adsorbate_loop lib c adslab adsorbate_indices [] = Inr True"
| "Combined_adsorbate_loop lib c adslab adsorbate_indices (idx # rest) =
     (let coord = frac_coords (sites adslab ! idx)
      in if (vx coord < 0 \<or> 1 < vx coord) \<or> (vy coord < 0 \<or> 1 < vy coord)
              \<or> (vz coord < 0 \<or> 1 < vz coord)
         then Inr False
         else ebind (voronoi_get_nn_info lib adslab idx) (\<lambda>nearneighbors.
                let slab_nn = filter (\<lambda>nn. nn \<notin> set adsorbate_indices) nearneighbors
                in ebind (Combined_slab_nn_loop lib c adslab idx slab_nn) (\<lambda>ok.
                     if ok then Combined_adsorbate_loop lib c adslab adsorbate_indices rest
                     else Inr False)))"

definition Combined_is_config_reasonable :: "extlib \<Rightarrow> constants \<Rightarrow> atoms \<Rightarrow> error + bool" where
  "Combined_is_config_reasonable lib c adslab =
     (let adsorbate_indices =
            filter (\<lambda>i. tag (sites adslab ! i) = 2) [0 ..< length (sites adslab)]
      in Combined_adsorbate_loop lib c adslab adsorbate_indices adsorbate_indices)"

fun Combined_filter_reasonable :: "extlib \<Rightarrow> constants \<Rightarrow> atoms list \<Rightarrow> error + atoms list" where
  "Combined_filter_reasonable lib c [] = Inr []"
| "Combined_filter_reasonable lib c (s # rest) =
     ebind (Combined_is_config_reasonable lib c s) (\<lambda>ok.
     ebind (Combined_filter_reasonable lib c rest) (\<lambda>kept.
       Inr (if ok then s # kept else kept)))"

definition Combined_add_adsorbate_onto_surface ::
  "extlib \<Rightarrow> constants \<Rightarrow> combined \<Rightarrow> atoms \<Rightarrow> atoms \<Rightarrow> int list \<Rightarrow> nat \<Rightarrow> error + combined" where
  "Combined_add_adsorbate_onto_surface lib c self adsorbate surface bond_indices r =
     (let surface_atom_indices =
            filter (\<lambda>i. tag (sites surface ! i) = 1) [0 ..< length (sites surface)];
          surface_gratoms =
            surface\<lparr>gratoms_surface_atoms := surface_atom_indices, pbc := (True, True, False)\<rparr>
      in ebind (Combined_convert_adsorbate_atoms_to_gratoms lib adsorbate) (\<lambda>adsorbate_gratoms.
         ebind (builder_add_adsorbate lib surface_gratoms adsorbate_gratoms bond_indices)
           (\<lambda>adsorbed_surfaces.
         ebind (Combined_filter_reasonable lib c adsorbed_surfaces)
           (\<lambda>reasonable_adsorbed_surfaces.
         ebind (random_choice (length reasonable_adsorbed_surfaces) r)
           (\<lambda>reasonable_adsorbed_surface_index.
         ebind (py_get reasonable_adsorbed_surfaces (int reasonable_adsorbed_surface_index))
           (\<lambda>chosen.
              Inr (self\<lparr>adsorbed_surface_atoms := Some chosen,
                        adsorbed_surface_sampling_str :=
                          Some (str_nat reasonable_adsorbed_surface_index @ ''/''
                                  @ str_nat (length reasonable_adsorbed_surfaces))\<rparr>)))))))"

fun Combined_find_sites :: "atoms \<Rightarrow> atoms \<Rightarrow> int list \<Rightarrow> error + vec3 list" where
  "Combined_find_sites surface adsorbed_surface [] = Inr []"
| "Combined_find_sites surface adsorbed_surface (idx # rest) =
     (let binding_atom_index = int (length (sites surface)) + idx
      in ebind (py_get (sites adsorbed_surface) binding_atom_index) (\<lambda>a.
           let positions = (np_round (vx (position a)) 2, np_round (vy (position a)) 2,
                            np_round (vz (position a)) 2)
           in ebind (Combined_find_sites surface adsorbed_surface rest) (\<lambda>more.
                Inr (positions # more))))"

section \<open>A sample run\<close>

text \<open>
  A small world on which every step of the sampler can be evaluated: a copper bulk of
  one site, a slab of five copper atoms in a cubic cell of 10 Angstrom, and an oxygen
  atom as the adsorbate. The library functions are fixed tables: the builder places the
  adsorbate above the slab at three heights, and \<^verbatim>\<open>repeat\<close> copies the atoms image by image
  along the first two cell vectors.
\<close>

definition mk_atom :: "string \<Rightarrow> real \<Rightarrow> int \<Rightarrow> atom" where
  "mk_atom el z t =
     \<lparr>symbol = el, weight = 1, position = (5, 5, 10 * z), frac_coords = (1 / 2, 1 / 2, z),
      scaled_position = (1 / 2, 1 / 2, z), tag = t\<rparr>"

definition mk_atoms :: "atom list \<Rightarrow> atoms" where
  "mk_atoms xs =
     \<lparr>sites = xs, cell = ((10, 0, 0), (0, 10, 0), (0, 0, 10)), pbc = (True, True, True),
      constraints = [], gratoms_surface_atoms = [], edges = []\<rparr>"

definition ex_bulk :: atoms where
  "ex_bulk = mk_atoms [mk_atom ''Cu'' 0 0]"

definition ex_slab :: atoms where
  "ex_slab = mk_atoms [mk_atom ''Cu'' (1 / 10) 0, mk_atom ''Cu'' (1 / 10) 0,
                       mk_atom ''Cu'' (6 / 10) 0, mk_atom ''Cu'' (7 / 10) 0,
                       mk_atom ''Cu'' (8 / 10) 0]"

definition ex_adsorbate :: atoms where
  "ex_adsorbate = mk_atoms [mk_atom ''O'' 0 0]"

definition ex_hydrogen :: atoms where
  "ex_hydrogen = mk_atoms [mk_atom ''H'' 0 0]"

text \<open>The builder puts the adsorbate at x = 5.251953125 (a double), y = 5 and the height z.\<close>

definition place :: "real \<Rightarrow> atom \<Rightarrow> atom" where
  "place z a = a\<lparr>position := (2689 / 512, 5, 10 * z), frac_coords := (2689 / 5120, 1 / 2, z),
                 scaled_position := (2689 / 5120, 1 / 2, z)\<rparr>"

definition ex_builder :: "atoms \<Rightarrow> atoms \<Rightarrow> int list \<Rightarrow> error + atoms list" where
  "ex_builder slab ads bonds =
     Inr (map (\<lambda>z. slab\<lparr>sites := sites slab @ map (place z) (sites ads)\<rparr>) [81 / 100, 1, 6 / 5])"

definition vscale :: "real \<Rightarrow> vec3 \<Rightarrow> vec3" where
  "vscale k v = (k * vx v, k * vy v, k * vz v)"

definition ex_image :: "vec3 \<Rightarrow> vec3 \<Rightarrow> int \<Rightarrow> int \<Rightarrow> nat \<Rightarrow> nat \<Rightarrow> atom \<Rightarrow> atom" where
  "ex_image c0 c1 nx ny i j a =
     a\<lparr>position := (vx (position a) + real i * vx c0 + real j * vx c1,
                     vy (position a) + real i * vy c0 + real j * vy c1,
                     vz (position a) + real i * vz c0 + real j * vz c1),
       frac_coords := ((vx (frac_coords a) + real i) / of_int nx,
                       (vy (frac_coords a) + real j) / of_int ny, vz (frac_coords a)),
       scaled_position := ((vx (scaled_position a) + real i) / of_int nx,
                           (vy (scaled_position a) + real j) / of_int ny,
                           vz (scaled_position a))\<rparr>"

definition ex_repeat :: "atoms \<Rightarrow> int \<times> int \<times> int \<Rightarrow> atoms" where
  "ex_repeat a n =
     (case n of (nx, ny, nz) \<Rightarrow>
        (case cell a of (c0, c1, c2) \<Rightarrow>
           a\<lparr>sites := concat (map (\<lambda>i. concat (map (\<lambda>j. map (ex_image c0 c1 nx ny i j) (sites a))
                                                    [0 ..< nat ny]))
                                [0 ..< nat nx]),
             cell := (vscale (of_int nx) c0, vscale (of_int ny) c1, vscale (of_int nz) c2)\<rparr>))"

definition ex_lib :: extlib where
  "ex_lib =
     \<lparr>voronoi_get_cn = (\<lambda>a i. if length (sites a) = 1 then Inr 12
                              else if i = 4 then Inl RuntimeError
                              else if i = 3 then Inr (2250001 / 250000) else Inr 12),
      voronoi_get_nn_info = (\<lambda>a i. Inr [3, 4, 5]),
      get_distance = (\<lambda>a i j. \<bar>vz (position (sites a ! i)) - vz (position (sites a ! j))\<bar>),
      equivalent_indices = (\<lambda>a. [[0]]),
      repeat_atoms = ex_repeat,
      builder_add_adsorbate = ex_builder,
      connectivity_matrix = (\<lambda>a. [[0]]),
      conventional_standard_structure = (\<lambda>a. a),
      distinct_miller_indices = (\<lambda>a m. []),
      get_slabs = (\<lambda>a m. []),
      symmetry_z_xforms = (\<lambda>a. []),
      wrap_atoms = (\<lambda>a. a),
      rotate_atoms = (\<lambda>a. a)\<rparr>"

definition ex_constants :: constants where
  "ex_constants =
     \<lparr>COVALENT_RADIUS = [''Cu'' \<mapsto> 132, ''O'' \<mapsto> 66], MAX_MILLER = 2, MIN_XY = 8\<rparr>"

text \<open>
  A unit slab of one copper atom in a cell of 5 by 5 Angstrom, which \<^verbatim>\<open>tile_atoms\<close> repeats
  twice along each of the first two cell vectors, and the slab it becomes.
\<close>

definition ex_unit_slab :: atoms where
  "ex_unit_slab =
     \<lparr>sites = [\<lparr>symbol = ''Cu'', weight = 1, position = (5 / 2, 5 / 2, 5),
                 frac_coords = (1 / 2, 1 / 2, 1 / 2), scaled_position = (1 / 2, 1 / 2, 1 / 2),
                 tag = 0\<rparr>],
      cell = ((5, 0, 0), (0, 5, 0), (0, 0, 10)), pbc = (True, True, True),
      constraints = [], gratoms_surface_atoms = [], edges = []\<rparr>"

definition ex_tile :: "real \<Rightarrow> real \<Rightarrow> int \<Rightarrow> atom" where
  "ex_tile x y t =
     \<lparr>symbol = ''Cu'', weight = 1, position = (x, y, 5), frac_coords = (x / 10, y / 10, 1 / 2),
      scaled_position = (x / 10, y / 10, 1 / 2), tag = t\<rparr>"

definition ex_tiled_slab :: "int \<Rightarrow> atoms" where
  "ex_tiled_slab t =
     mk_atoms [ex_tile (5 / 2) (5 / 2) t, ex_tile (5 / 2) (15 / 2) t,
               ex_tile (15 / 2) (5 / 2) t, ex_tile (15 / 2) (15 / 2) t]"

definition ex_world :: world where
  "ex_world =
     \<lparr>bulk_files = [''bulks.pkl'' \<mapsto> [1 \<mapsto> [(ex_bulk, ''mp-30'', ''0/1'', 7)], 3 \<mapsto> []]],
      adsorbate_files =
        [''adsorbates.pkl'' \<mapsto> [(ex_adsorbate, ''*O'', [0]), (ex_hydrogen, ''*H'', [0])]],
      enumeration_files =
        [precomputed_path @ ''7.pkl'' \<mapsto>
           [(ex_slab, (1, 1, 1), 1 / 4, True), (ex_slab, (1, 0, 0), 2469 / 20000, False)],
         precomputed_path @ ''8.pkl'' \<mapsto> [(ex_unit_slab, (1, 1, 1), 1 / 2, True)]]\<rparr>"

definition ex_tagged_slab :: atoms where
  "ex_tagged_slab = mk_atoms [mk_atom ''Cu'' (1 / 10) 0, mk_atom ''Cu'' (1 / 10) 0,
                              mk_atom ''Cu'' (6 / 10) 1, mk_atom ''Cu'' (7 / 10) 1,
                              mk_atom ''Cu'' (8 / 10) 1]"

definition ex_adslab :: "real \<Rightarrow> atoms" where
  "ex_adslab z =
     \<lparr>sites = [mk_atom ''Cu'' (1 / 10) 0, mk_atom ''Cu'' (1 / 10) 0,
               mk_atom ''Cu'' (6 / 10) 1, mk_atom ''Cu'' (7 / 10) 1,
               mk_atom ''Cu'' (8 / 10) 1, place z (mk_atom ''O'' 0 2)],
      cell = ((10, 0, 0), (0, 10, 0), (0, 0, 10)), pbc = (True, True, False),
      constraints = [], gratoms_surface_atoms = [2, 3, 4], edges = []\<rparr>"

text \<open>
  The raw values of the generator in the sample run: 0 for the number of elements, 0 for
  the bulk, 1 for the surface, 0 for the adsorbate, 0 for the configuration.
\<close>

definition ex_rng :: "nat stream" where
  "ex_rng = 0 ## 0 ## 1 ## 0 ## 0 ## sconst 0"

definition ex_adsorbed_dict :: adsorbed_bulk_dict where
  "ex_adsorbed_dict =
     \<lparr>adsorbed_bulk_atomsobject = constrain_surface (ex_adslab 1),
      adsorbed_bulk_metadata =
        (''mp-30'', (1, 0, 0), 123 / 1000, False, ''*O'', [(21 / 4, 5, 10)]),
      adsorbed_bulk_samplingstr = ''1/1_0/1_1/2_0/2_0/1''\<rparr>"

definition ex_bulk_dict :: bulk_dict where
  "ex_bulk_dict =
     \<lparr>bulk_atomsobject = constrain_surface ex_tagged_slab,
      bulk_metadata = (''mp-30'', (1, 0, 0), 123 / 1000, False),
      bulk_samplingstr = ''1/1_0/1_1/2''\<rparr>"

text \<open>
  A slab of an alloy whose atoms differ in weight (copper 64, aluminium 27), its bulk of
  two sites, and the coordination numbers of the two.
\<close>

definition ex_alloy_bulk :: atoms where
  "ex_alloy_bulk = mk_atoms [(mk_atom ''Cu'' 0 0)\<lparr>weight := 64\<rparr>,
                             (mk_atom ''Al'' (1 / 2) 0)\<lparr>weight := 27\<rparr>]"

definition ex_alloy_slab :: atoms where
  "ex_alloy_slab = mk_atoms [(mk_atom ''Cu'' (2 / 10) 0)\<lparr>weight := 64\<rparr>,
                             (mk_atom ''Cu'' (3 / 10) 0)\<lparr>weight := 64\<rparr>,
                             (mk_atom ''Al'' (4 / 10) 0)\<lparr>weight := 27\<rparr>]"

definition ex_alloy_lib :: extlib where
  "ex_alloy_lib =
     ex_lib\<lparr>voronoi_get_cn := (\<lambda>a i. if length (sites a) = 2 then Inr 12
                                     else if i = 0 then Inr 12 else Inr 9),
            equivalent_indices := (\<lambda>a. [[0], [1]])\<rparr>"

text \<open>
  A builder that gives every atom of its configurations the tag 0, and its configurations.
\<close>

definition ex_retag_builder :: "atoms \<Rightarrow> atoms \<Rightarrow> int list \<Rightarrow> error + atoms list" where
  "ex_retag_builder slab ads bonds =
     Inr (map (\<lambda>z. slab\<lparr>sites := map (\<lambda>s. s\<lparr>tag := 0\<rparr>) (sites slab @ map (place z) (sites ads))\<rparr>)
            [1, 81 / 100, 6 / 5])"

definition ex_retag_lib :: extlib where
  "ex_retag_lib = ex_lib\<lparr>builder_add_adsorbate := ex_retag_builder\<rparr>"

definition ex_retag_adslab :: "real \<Rightarrow> atoms" where
  "ex_retag_adslab z =
     \<lparr>sites = [mk_atom ''Cu'' (1 / 10) 0, mk_atom ''Cu'' (1 / 10) 0,
               mk_atom ''Cu'' (6 / 10) 0, mk_atom ''Cu'' (7 / 10) 0,
               mk_atom ''Cu'' (8 / 10) 0, place z (mk_atom ''O'' 0 0)],
      cell = ((10, 0, 0), (0, 10, 0), (0, 0, 10)), pbc = (True, True, False),
      constraints = [], gratoms_surface_atoms = [2, 3, 4], edges = []\<rparr>"


definition ex_miller_lib :: extlib where
  "ex_miller_lib =
     ex_lib\<lparr>distinct_miller_indices := (\<lambda>a m. if 1 \<le> m then [(1, 0, 0)] else []),
            get_slabs := (\<lambda>a m. [(ex_slab, 1 / 4)]),
            symmetry_z_xforms := (\<lambda>a. [1, - 1])\<rparr>"

section \<open>Properties of the tagging\<close>

text \<open>
  The tag the Voronoi method gives one site: 1 exactly when the site is above the centre
  of mass and either the coordination cannot be computed (\<^verbatim>\<open>RuntimeError\<close>) or the rounded
  coordination is below the minimum of the bulk for the element; 0 otherwise.
\<close>

definition site_tag_ok ::
  "extlib \<Rightarrow> atoms \<Rightarrow> vec3 \<Rightarrow> (string \<Rightarrow> real set) \<Rightarrow> nat \<Rightarrow> atom \<Rightarrow> int \<Rightarrow> bool" where
  "site_tag_ok lib surf com d i s t =
     ((t = 1 \<longleftrightarrow>
         vz com < vz (frac_coords s) \<and>
         (voronoi_get_cn lib surf i = Inl RuntimeError \<or>
          (\<exists>cn. voronoi_get_cn lib surf i = Inr cn \<and> py_round cn 5 < Min (d (symbol s)))))
      \<and> (t \<noteq> 1 \<longrightarrow> t = 0))"

lemma py_max_Max: "xs \<noteq> [] \<Longrightarrow> py_max xs = Inr (Max (set xs))"
  by (cases xs) (simp_all add: Max.set_eq_fold [symmetric])

lemma py_round_12: "py_round 12 5 = 12"
  by (simp add: py_round_def round_half_even_def)

lemma py_round_9: "py_round (2250001 / 250000) 5 = 9"
  by (simp add: py_round_def round_half_even_def Let_def)

lemma ex_height_tags: "find_surface_atoms_by_height ex_slab = Inr [0, 0, 1, 1, 1]"
  by (simp add: find_surface_atoms_by_height_def ex_slab_def mk_atoms_def mk_atom_def
      linalg_norm_def vx_def vy_def vz_def)

text \<open>
  C4. \<^verbatim>\<open>_find_surface_atoms_by_height\<close> on a surface with at least one atom returns one tag
  per atom; the tag is 1 exactly when the scaled z-coordinate of the atom is at least the
  maximum scaled z-coordinate minus 2 divided by the length of the third cell vector, and
  0 otherwise. A cell vector of length zero makes the quotient infinite, and then every atom
  is at least the threshold.
\<close>

theorem find_surface_atoms_by_height_threshold:
  assumes "sites a \<noteq> []"
  shows "\<exists>tags. find_surface_atoms_by_height a = Inr tags \<and> length tags = length (sites a) \<and>
     (\<forall>i < length (sites a).
        (tags ! i = 1 \<longleftrightarrow>
           (linalg_norm (snd (snd (cell a))) = 0 \<or>
            Max (set (map (\<lambda>s. vz (scaled_position s)) (sites a)))
               - 2 / linalg_norm (snd (snd (cell a))) \<le> vz (scaled_position (sites a ! i))))
        \<and> (tags ! i \<noteq> 1 \<longrightarrow> tags ! i = 0))"
  using assms
  by (auto simp: find_surface_atoms_by_height_def Let_def py_max_Max comp_def not_less)

theorem find_surface_atoms_by_height_threshold_witness:
  "sites ex_slab \<noteq> [] \<and>
   (\<exists>tags. find_surface_atoms_by_height ex_slab = Inr tags \<and> length tags = 5 \<and>
      tags ! 2 = 1 \<and> tags ! 1 = 0 \<and>
      8 / 10 - 2 / linalg_norm (snd (snd (cell ex_slab))) \<le> vz (scaled_position (sites ex_slab ! 2)))"
proof -
  have ne: "sites ex_slab \<noteq> []"
    by (simp add: ex_slab_def mk_atoms_def)
  from find_surface_atoms_by_height_threshold [OF ne] obtain tags where
    "find_surface_atoms_by_height ex_slab = Inr tags" "length tags = length (sites ex_slab)"
    by blast
  then show ?thesis
    using ne ex_height_tags
    by (auto simp: ex_slab_def mk_atoms_def mk_atom_def linalg_norm_def vx_def vy_def vz_def)
qed

lemma voronoi_loop_spec:
  "voronoi_loop lib surf com d k xs = Inr tags \<Longrightarrow>
     length tags = length xs \<and>
     (\<forall>i < length xs. site_tag_ok lib surf com d (k + i) (xs ! i) (tags ! i))"
proof (induction xs arbitrary: k tags)
  case Nil
  then show ?case by simp
next
  case (Cons s rest)
  from Cons.prems obtain t ts where
    t: "(if vz com < vz (frac_coords s)
            then (case voronoi_get_cn lib surf k of
                    Inl RuntimeError \<Rightarrow> Inr 1
                  | Inl e \<Rightarrow> Inl e
                  | Inr cn \<Rightarrow>
                      (case py_min_set (d (symbol s)) of
                         Inl e \<Rightarrow> Inl e
                       | Inr m \<Rightarrow> if py_round cn 5 < m then Inr 1 else Inr 0))
            else Inr 0) = Inr t"
    and ts: "voronoi_loop lib surf com d (Suc k) rest = Inr ts"
    and tags: "tags = t # ts"
    by (auto split: sum.splits)
  from Cons.IH [OF ts] have len: "length ts = length rest"
    and rest: "\<forall>i < length rest. site_tag_ok lib surf com d (Suc k + i) (rest ! i) (ts ! i)"
    by simp_all
  have head: "site_tag_ok lib surf com d k s t"
    using t
    by (auto simp: site_tag_ok_def py_min_set_def split: if_splits sum.splits error.splits)
  show ?case
  proof (intro conjI allI impI)
    show "length tags = length (s # rest)" using len tags by simp
  next
    fix i assume i: "i < length (s # rest)"
    show "site_tag_ok lib surf com d (k + i) ((s # rest) ! i) (tags ! i)"
    proof (cases i)
      case 0
      then show ?thesis using head tags by simp
    next
      case (Suc j)
      then show ?thesis using rest i tags by simp
    qed
  qed
qed

lemma bulk_cn_loop_spec:
  "bulk_cn_loop lib b acc ks = Inr d \<Longrightarrow>
     d el = acc el \<union>
       {py_round cn 5 | cn k. k \<in> set ks \<and> k \<noteq> [] \<and> symbol (sites b ! hd k) = el
                              \<and> voronoi_get_cn lib b (hd k) = Inr cn}"
proof (induction ks arbitrary: acc)
  case Nil
  then show ?case by simp
next
  case (Cons k ks)
  from Cons.prems obtain i site cn where
    i: "py_get k 0 = Inr i" and site: "py_get (sites b) (int i) = Inr site"
    and cn: "voronoi_get_cn lib b i = Inr cn"
    and rest: "bulk_cn_loop lib b (acc (symbol site := insert (py_round cn 5) (acc (symbol site)))) ks = Inr d"
    by (auto split: sum.splits)
  from i have k: "k \<noteq> []" "hd k = i"
    by (auto simp: py_get_def hd_conv_nth split: if_splits)
  from site have s: "sites b ! i = site"
    by (auto simp: py_get_def split: if_splits)
  show ?case
    unfolding Cons.IH [OF rest] using k s cn by auto
qed

lemma ex_bulk_cn:
  "calculate_coordination_of_bulk_atoms ex_lib ex_bulk = Inr ((\<lambda>s. {})(''Cu'' := {12}))"
  by (simp add: calculate_coordination_of_bulk_atoms_def ex_lib_def ex_bulk_def mk_atoms_def
      mk_atom_def py_get_def py_round_12)

lemma ex_center_of_mass: "calculate_center_of_mass ex_slab = Inr (1 / 2, 1 / 2, 46 / 100)"
  by (simp add: calculate_center_of_mass_def ex_slab_def mk_atoms_def mk_atom_def
      vx_def vy_def vz_def)

lemma ex_voronoi_tags:
  "find_surface_atoms_with_voronoi ex_lib ex_bulk ex_slab = Inr [0, 0, 0, 1, 1]"
  unfolding find_surface_atoms_with_voronoi_def ex_bulk_cn ex_center_of_mass
  by (simp add: ex_slab_def mk_atoms_def mk_atom_def ex_lib_def vz_def py_min_set_def
      py_round_12 py_round_9)

lemma calculate_center_of_mass_Inr:
  assumes "calculate_center_of_mass surf = Inr com"
  shows "sum_list (map weight (sites surf)) \<noteq> 0 \<and>
         com = ((\<Sum>s \<leftarrow> sites surf. weight s * vx (frac_coords s)) / sum_list (map weight (sites surf)),
                (\<Sum>s \<leftarrow> sites surf. weight s * vy (frac_coords s)) / sum_list (map weight (sites surf)),
                (\<Sum>s \<leftarrow> sites surf. weight s * vz (frac_coords s)) / sum_list (map weight (sites surf)))"
  using assms by (auto simp: calculate_center_of_mass_def Let_def split: if_splits)

lemma ex_alloy_bulk_cn:
  "calculate_coordination_of_bulk_atoms ex_alloy_lib ex_alloy_bulk =
     Inr ((\<lambda>s. {})(''Cu'' := {12}, ''Al'' := {12}))"
  by (simp add: calculate_coordination_of_bulk_atoms_def ex_alloy_lib_def ex_lib_def
      ex_alloy_bulk_def mk_atoms_def mk_atom_def py_get_def py_round_12)

lemma ex_alloy_center_of_mass:
  "calculate_center_of_mass ex_alloy_slab = Inr (1 / 2, 1 / 2, 214 / 775)"
  by (simp add: calculate_center_of_mass_def ex_alloy_slab_def mk_atoms_def mk_atom_def
      vx_def vy_def vz_def)

lemma py_round_nine: "py_round 9 5 = 9"
  by (simp add: py_round_def round_half_even_def)

lemma ex_alloy_voronoi_tags:
  "find_surface_atoms_with_voronoi ex_alloy_lib ex_alloy_bulk ex_alloy_slab = Inr [0, 1, 1]"
  unfolding find_surface_atoms_with_voronoi_def ex_alloy_bulk_cn ex_alloy_center_of_mass
  by (simp add: ex_alloy_slab_def mk_atoms_def mk_atom_def ex_alloy_lib_def ex_lib_def vz_def
      py_min_set_def py_round_12 py_round_nine)

text \<open>
  C3. When \<^verbatim>\<open>_find_surface_atoms_with_voronoi\<close> returns, it returns one tag per atom of
  the surface. The centre of mass is the average of the fractional coordinates weighted by
  the atomic weights. The tag of an atom is 1 exactly when its fractional z-coordinate is
  strictly above that of the centre of mass and either \<^verbatim>\<open>get_cn\<close> raises \<^verbatim>\<open>RuntimeError\<close> or
  the coordination number rounded to 5 decimals is strictly below the minimum of the set the
  bulk dictionary holds for the element; every other tag is 0, so every atom at or below the
  centre of mass is tagged 0. The set of an element holds the rounded coordination numbers
  of the first site of each class of equivalent bulk sites with that element.
\<close>

theorem find_surface_atoms_with_voronoi_tags:
  assumes "find_surface_atoms_with_voronoi lib bulk surf = Inr tags"
  shows "\<exists>com d. calculate_center_of_mass surf = Inr com \<and>
           sum_list (map weight (sites surf)) \<noteq> 0 \<and>
           vz com = (\<Sum>s \<leftarrow> sites surf. weight s * vz (frac_coords s)) /
                      sum_list (map weight (sites surf)) \<and>
           calculate_coordination_of_bulk_atoms lib bulk = Inr d \<and>
           (\<forall>el. d el =
              {py_round cn 5 | cn k. k \<in> set (equivalent_indices lib bulk) \<and> k \<noteq> [] \<and>
                 symbol (sites bulk ! hd k) = el \<and> voronoi_get_cn lib bulk (hd k) = Inr cn}) \<and>
           length tags = length (sites surf) \<and>
           (\<forall>i < length (sites surf).
              (tags ! i = 1 \<longleftrightarrow>
                 vz com < vz (frac_coords (sites surf ! i)) \<and>
                 (voronoi_get_cn lib surf i = Inl RuntimeError \<or>
                  (\<exists>cn. voronoi_get_cn lib surf i = Inr cn \<and>
                     py_round cn 5 < Min (d (symbol (sites surf ! i)))))) \<and>
              (tags ! i \<noteq> 1 \<longrightarrow> tags ! i = 0) \<and>
              (vz (frac_coords (sites surf ! i)) \<le> vz com \<longrightarrow> tags ! i = 0))"
proof -
  from assms obtain com d where
    com: "calculate_center_of_mass surf = Inr com"
    and d: "calculate_coordination_of_bulk_atoms lib bulk = Inr d"
    and loop: "voronoi_loop lib surf com d 0 (sites surf) = Inr tags"
    by (auto simp: find_surface_atoms_with_voronoi_def split: sum.splits)
  from calculate_center_of_mass_Inr [OF com] have
    w: "sum_list (map weight (sites surf)) \<noteq> 0"
    and z: "vz com = (\<Sum>s \<leftarrow> sites surf. weight s * vz (frac_coords s)) /
                      sum_list (map weight (sites surf))"
    by (simp_all add: vz_def)
  from d have dict: "\<And>el. d el =
      {py_round cn 5 | cn k. k \<in> set (equivalent_indices lib bulk) \<and> k \<noteq> [] \<and>
         symbol (sites bulk ! hd k) = el \<and> voronoi_get_cn lib bulk (hd k) = Inr cn}"
    using bulk_cn_loop_spec [of lib bulk "\<lambda>s. {}" "equivalent_indices lib bulk" d]
    by (simp add: calculate_coordination_of_bulk_atoms_def)
  from voronoi_loop_spec [OF loop] have len: "length tags = length (sites surf)"
    and ok: "\<And>i. i < length (sites surf) \<Longrightarrow> site_tag_ok lib surf com d i (sites surf ! i) (tags ! i)"
    by simp_all
  have "\<forall>i < length (sites surf).
              (tags ! i = 1 \<longleftrightarrow>
                 vz com < vz (frac_coords (sites surf ! i)) \<and>
                 (voronoi_get_cn lib surf i = Inl RuntimeError \<or>
                  (\<exists>cn. voronoi_get_cn lib surf i = Inr cn \<and>
                     py_round cn 5 < Min (d (symbol (sites surf ! i)))))) \<and>
              (tags ! i \<noteq> 1 \<longrightarrow> tags ! i = 0) \<and>
              (vz (frac_coords (sites surf ! i)) \<le> vz com \<longrightarrow> tags ! i = 0)"
  proof (intro allI impI)
    fix i assume "i < length (sites surf)"
    from ok [OF this] show "(tags ! i = 1 \<longleftrightarrow>
                 vz com < vz (frac_coords (sites surf ! i)) \<and>
                 (voronoi_get_cn lib surf i = Inl RuntimeError \<or>
                  (\<exists>cn. voronoi_get_cn lib surf i = Inr cn \<and>
                     py_round cn 5 < Min (d (symbol (sites surf ! i)))))) \<and>
              (tags ! i \<noteq> 1 \<longrightarrow> tags ! i = 0) \<and>
              (vz (frac_coords (sites surf ! i)) \<le> vz com \<longrightarrow> tags ! i = 0)"
      unfolding site_tag_ok_def by force
  qed
  with com w z d dict len show ?thesis by blast
qed

text \<open>
  The witness is the alloy slab: the weighted centre of mass is at z = 214/775, below the
  copper atom at z = 3/10, which the unweighted mean of the three heights (3/10) is not.
\<close>

theorem find_surface_atoms_with_voronoi_tags_witness:
  "find_surface_atoms_with_voronoi ex_alloy_lib ex_alloy_bulk ex_alloy_slab = Inr [0, 1, 1] \<and>
   (\<exists>com d. calculate_center_of_mass ex_alloy_slab = Inr com \<and>
      calculate_coordination_of_bulk_atoms ex_alloy_lib ex_alloy_bulk = Inr d \<and>
      d ''Cu'' = {12} \<and> d ''Al'' = {12} \<and>
      vz com = (64 * (2 / 10) + 64 * (3 / 10) + 27 * (4 / 10)) / (64 + 64 + 27) \<and>
      vz com < vz (frac_coords (sites ex_alloy_slab ! 1)) \<and>
      \<not> (2 / 10 + 3 / 10 + 4 / 10) / 3 < vz (frac_coords (sites ex_alloy_slab ! 1)) \<and>
      voronoi_get_cn ex_alloy_lib ex_alloy_slab 1 = Inr 9 \<and>
      py_round 9 5 < Min (d (symbol (sites ex_alloy_slab ! 1))) \<and>
      vz (frac_coords (sites ex_alloy_slab ! 0)) \<le> vz com)"
proof -
  from find_surface_atoms_with_voronoi_tags [OF ex_alloy_voronoi_tags] obtain com d where
    "calculate_center_of_mass ex_alloy_slab = Inr com"
    "calculate_coordination_of_bulk_atoms ex_alloy_lib ex_alloy_bulk = Inr d"
    "vz com = (\<Sum>s \<leftarrow> sites ex_alloy_slab. weight s * vz (frac_coords s)) /
                sum_list (map weight (sites ex_alloy_slab))"
    by blast
  then show ?thesis
    using ex_alloy_voronoi_tags ex_alloy_bulk_cn ex_alloy_center_of_mass
    by (auto simp: ex_alloy_slab_def mk_atoms_def mk_atom_def ex_alloy_lib_def ex_lib_def vz_def
        py_round_nine)
qed

section \<open>Properties of the choosers\<close>

lemma random_choice_less: "random_choice n r = Inr i \<Longrightarrow> i < n"
  by (auto simp: random_choice_def split: if_splits)

lemma py_get_nat: "i < length xs \<Longrightarrow> py_get xs (int i) = Inr (xs ! i)"
  by (simp add: py_get_def)

text \<open>
  C8. For every bulk and any two values of the argument \<^verbatim>\<open>max_miller\<close>, \<^verbatim>\<open>enumerate_surfaces\<close>
  gives the same list: the loop reads the constant \<^verbatim>\<open>MAX_MILLER\<close>, never the argument.
\<close>

theorem enumerate_surfaces_ignores_max_miller:
  "enumerate_surfaces lib c bulk_atoms m1 = enumerate_surfaces lib c bulk_atoms m2"
  by (simp add: enumerate_surfaces_def)

text \<open>
  C9. When the inverted index maps the number of elements to an empty list,
  \<^verbatim>\<open>choose_bulk_pkl\<close> ends with the \<^verbatim>\<open>ValueError\<close> of \<^verbatim>\<open>np.random.choice\<close>, unchanged; and on no
  input at all does it end with what its \<^verbatim>\<open>IndexError\<close> handler raises, so the handler is
  never entered.
\<close>

theorem choose_bulk_pkl_empty_rows:
  assumes "bulk_files w bulk_database = Some inv_index" and "inv_index n_elems = Some []"
  shows "choose_bulk_pkl w bulk_database n_elems r =
           Inl (ValueError ''a must be greater than 0 unless no samples are taken'') \<and>
         (\<forall>w' db' n' r'. choose_bulk_pkl w' db' n' r' \<noteq>
            Inl (TypeError ''not all arguments converted during string formatting''))"
proof
  show "choose_bulk_pkl w bulk_database n_elems r =
          Inl (ValueError ''a must be greater than 0 unless no samples are taken'')"
    using assms by (simp add: choose_bulk_pkl_def random_choice_def ebind_def)
next
  show "\<forall>w' db' n' r'. choose_bulk_pkl w' db' n' r' \<noteq>
          Inl (TypeError ''not all arguments converted during string formatting'')"
  proof (intro allI)
    fix w' db' n' r'
    show "choose_bulk_pkl w' db' n' r' \<noteq>
            Inl (TypeError ''not all arguments converted during string formatting'')"
    proof (cases "bulk_files w' db'")
      case None
      then show ?thesis by (simp add: choose_bulk_pkl_def)
    next
      case (Some inv)
      show ?thesis
      proof (cases "inv n'")
        case None
        with Some show ?thesis by (simp add: choose_bulk_pkl_def)
      next
        case rows: (Some rows)
        show ?thesis
        proof (cases "rows = []")
          case True
          with Some rows show ?thesis
            by (simp add: choose_bulk_pkl_def random_choice_def ebind_def)
        next
          case False
          then have "r' mod length rows < length rows" by simp
          then have "py_get rows (int (r' mod length rows)) = Inr (rows ! (r' mod length rows))"
            by (rule py_get_nat)
          with Some rows False show ?thesis
            by (simp add: choose_bulk_pkl_def random_choice_def ebind_def split: prod.splits)
        qed
      qed
    qed
  qed
qed

theorem choose_bulk_pkl_empty_rows_witness:
  "bulk_files ex_world ''bulks.pkl'' = Some [1 \<mapsto> [(ex_bulk, ''mp-30'', ''0/1'', 7)], 3 \<mapsto> []] \<and>
   [1 \<mapsto> [(ex_bulk, ''mp-30'', ''0/1'', 7)], 3 \<mapsto> []] (3::int) = Some [] \<and>
   choose_bulk_pkl ex_world ''bulks.pkl'' 3 0 =
     Inl (ValueError ''a must be greater than 0 unless no samples are taken'')"
proof -
  have f: "bulk_files ex_world ''bulks.pkl'' = Some [1 \<mapsto> [(ex_bulk, ''mp-30'', ''0/1'', 7)], 3 \<mapsto> []]"
    by (simp add: ex_world_def)
  have e: "[1 \<mapsto> [(ex_bulk, ''mp-30'', ''0/1'', 7)], 3 \<mapsto> []] (3::int) = Some []"
    by simp
  from choose_bulk_pkl_empty_rows [OF f e, of 0] f e show ?thesis by blast
qed

section \<open>The class Combined against the module\<close>

lemma Combined_slab_nn_loop_eq:
  "Combined_slab_nn_loop lib c adslab idx nns = slab_nn_loop lib c adslab idx nns"
  by (induction nns) (simp_all cong: if_cong)

lemma Combined_adsorbate_loop_eq:
  "Combined_adsorbate_loop lib c adslab inds xs = adsorbate_loop lib c adslab inds xs"
  by (induction xs) (simp_all add: Combined_slab_nn_loop_eq Let_def cong: if_cong)

lemma Combined_is_config_reasonable_eq:
  "Combined_is_config_reasonable lib c adslab = is_config_reasonable lib c adslab"
  by (simp add: Combined_is_config_reasonable_def is_config_reasonable_def
      adsorbate_indices_of_def Combined_adsorbate_loop_eq)

lemma Combined_filter_reasonable_eq:
  "Combined_filter_reasonable lib c xs = filter_reasonable lib c xs"
  by (induction xs) (simp_all add: Combined_is_config_reasonable_eq)

lemma Combined_convert_eq:
  "Combined_convert_adsorbate_atoms_to_gratoms lib a = convert_adsorbate_atoms_to_gratoms lib a"
  by (simp add: Combined_convert_adsorbate_atoms_to_gratoms_def
      convert_adsorbate_atoms_to_gratoms_def Combined_get_connectivity_def get_connectivity_def)

lemma Combined_find_sites_eq:
  "Combined_find_sites surface adsorbed_surface bond_indices =
     find_sites surface adsorbed_surface bond_indices"
  by (induction bond_indices) simp_all

text \<open>
  C10. Each of the five methods of \<^verbatim>\<open>Combined\<close> computes what the function of the same name
  in \<^verbatim>\<open>adsorptions.py\<close> computes, for the same values of the parameters of the same names and
  the same random draw. \<^verbatim>\<open>Combined.add_adsorbate_onto_surface\<close> takes the adsorbate before
  the surface and stores the pair the function returns in two attributes.
\<close>

theorem Combined_methods_equal_functions:
  "Combined_get_connectivity lib adsorbate = get_connectivity lib adsorbate \<and>
   Combined_convert_adsorbate_atoms_to_gratoms lib adsorbate =
     convert_adsorbate_atoms_to_gratoms lib adsorbate \<and>
   Combined_is_config_reasonable lib c adslab = is_config_reasonable lib c adslab \<and>
   Combined_find_sites surface adsorbed_surface bond_indices =
     find_sites surface adsorbed_surface bond_indices \<and>
   Combined_add_adsorbate_onto_surface lib c self adsorbate surface bond_indices r =
     (case add_adsorbate_onto_surface lib c surface adsorbate bond_indices r of
        Inl e \<Rightarrow> Inl e
      | Inr (chosen, sampling_str) \<Rightarrow>
          Inr (self\<lparr>adsorbed_surface_atoms := Some chosen,
                    adsorbed_surface_sampling_str := Some sampling_str\<rparr>))"
proof (intro conjI)
  show "Combined_get_connectivity lib adsorbate = get_connectivity lib adsorbate"
    by (simp add: Combined_get_connectivity_def get_connectivity_def)
  show "Combined_convert_adsorbate_atoms_to_gratoms lib adsorbate =
     convert_adsorbate_atoms_to_gratoms lib adsorbate"
    by (rule Combined_convert_eq)
  show "Combined_is_config_reasonable lib c adslab = is_config_reasonable lib c adslab"
    by (rule Combined_is_config_reasonable_eq)
  show "Combined_find_sites surface adsorbed_surface bond_indices =
     find_sites surface adsorbed_surface bond_indices"
    by (rule Combined_find_sites_eq)
  show "Combined_add_adsorbate_onto_surface lib c self adsorbate surface bond_indices r =
     (case add_adsorbate_onto_surface lib c surface adsorbate bond_indices r of
        Inl e \<Rightarrow> Inl e
      | Inr (chosen, sampling_str) \<Rightarrow>
          Inr (self\<lparr>adsorbed_surface_atoms := Some chosen,
                    adsorbed_surface_sampling_str := Some sampling_str\<rparr>))"
    unfolding Combined_add_adsorbate_onto_surface_def add_adsorbate_onto_surface_def
      Combined_convert_eq Combined_filter_reasonable_eq
    by (simp add: ebind_def Let_def split: sum.splits)
qed

section \<open>Properties of the placement\<close>

lemma str_nat_digit: "n < 10 \<Longrightarrow> str_nat n = [''0123456789'' ! n]"
  by (simp add: str_nat.simps)

lemma ebind_Inr_iff: "ebind m f = Inr y \<longleftrightarrow> (\<exists>x. m = Inr x \<and> f x = Inr y)"
  by (cases m) (simp_all add: ebind_def)

lemma py_get_Inr_nat: "py_get xs (int i) = Inr x \<Longrightarrow> i < length xs \<and> x = xs ! i"
  by (auto simp: py_get_def split: if_splits)

lemma slab_nn_loop_True:
  "slab_nn_loop lib c a idx nns = Inr True \<Longrightarrow>
     \<forall>nn \<in> set nns. nn < length (sites a) \<and>
       (\<exists>r_ads r_nn. COVALENT_RADIUS c (symbol (sites a ! idx)) = Some r_ads \<and>
          COVALENT_RADIUS c (symbol (sites a ! nn)) = Some r_nn \<and>
          8 / 10 * (r_ads + r_nn) / 100 \<le> get_distance lib a idx nn)"
proof (induction nns)
  case Nil
  then show ?case by simp
next
  case (Cons nn rest)
  from Cons.prems obtain nn_site r_ads r_nn where
    site: "py_get (sites a) (int nn) = Inr nn_site"
    and ra: "covalent_radius c (symbol (sites a ! idx)) = Inr r_ads"
    and rn: "covalent_radius c (symbol nn_site) = Inr r_nn"
    and far: "\<not> get_distance lib a idx nn < 8 / 10 * (r_ads + r_nn) / 100"
    and rest: "slab_nn_loop lib c a idx rest = Inr True"
    by (auto simp: ebind_Inr_iff Let_def split: if_splits)
  from site have nn: "nn < length (sites a)" "nn_site = sites a ! nn"
    by (auto dest: py_get_Inr_nat)
  from ra rn nn have
    "COVALENT_RADIUS c (symbol (sites a ! idx)) = Some r_ads"
    "COVALENT_RADIUS c (symbol (sites a ! nn)) = Some r_nn"
    by (auto simp: covalent_radius_def split: option.splits)
  with nn far Cons.IH [OF rest] show ?case by (auto simp: not_less)
qed

lemma adsorbate_loop_True:
  "adsorbate_loop lib c a inds xs = Inr True \<Longrightarrow>
     \<forall>idx \<in> set xs.
       0 \<le> vx (frac_coords (sites a ! idx)) \<and> vx (frac_coords (sites a ! idx)) \<le> 1 \<and>
       0 \<le> vy (frac_coords (sites a ! idx)) \<and> vy (frac_coords (sites a ! idx)) \<le> 1 \<and>
       0 \<le> vz (frac_coords (sites a ! idx)) \<and> vz (frac_coords (sites a ! idx)) \<le> 1 \<and>
       (\<exists>nbrs. voronoi_get_nn_info lib a idx = Inr nbrs \<and>
          slab_nn_loop lib c a idx (filter (\<lambda>nn. nn \<notin> set inds) nbrs) = Inr True)"
proof (induction xs)
  case Nil
  then show ?case by simp
next
  case (Cons idx rest)
  from Cons.prems have
    inside: "\<not> ((vx (frac_coords (sites a ! idx)) < 0 \<or> 1 < vx (frac_coords (sites a ! idx))) \<or>
                (vy (frac_coords (sites a ! idx)) < 0 \<or> 1 < vy (frac_coords (sites a ! idx))) \<or>
                (vz (frac_coords (sites a ! idx)) < 0 \<or> 1 < vz (frac_coords (sites a ! idx))))"
    by (auto simp: Let_def split: if_splits)
  with Cons.prems obtain nbrs where
    nbrs: "voronoi_get_nn_info lib a idx = Inr nbrs"
    and nn: "slab_nn_loop lib c a idx (filter (\<lambda>nn. nn \<notin> set inds) nbrs) = Inr True"
    and rest: "adsorbate_loop lib c a inds rest = Inr True"
    by (auto simp: Let_def ebind_Inr_iff split: if_splits)
  from inside nbrs nn Cons.IH [OF rest] show ?case by (auto simp: not_less)
qed

lemma filter_reasonable_sound:
  "filter_reasonable lib c xs = Inr ys \<Longrightarrow>
     \<forall>y \<in> set ys. y \<in> set xs \<and> is_config_reasonable lib c y = Inr True"
proof (induction xs arbitrary: ys)
  case Nil
  then show ?case by simp
next
  case (Cons x rest)
  from Cons.prems obtain ok kept where
    ok: "is_config_reasonable lib c x = Inr ok"
    and kept: "filter_reasonable lib c rest = Inr kept"
    and ys: "ys = (if ok = True then x # kept else kept)"
    by (auto simp: ebind_Inr_iff)
  from Cons.IH [OF kept] ok ys show ?case by (cases ok) auto
qed

lemma is_config_reasonable_True:
  assumes "is_config_reasonable lib c a = Inr True"
  shows "\<forall>idx < length (sites a). tag (sites a ! idx) = 2 \<longrightarrow>
       0 \<le> vx (frac_coords (sites a ! idx)) \<and> vx (frac_coords (sites a ! idx)) \<le> 1 \<and>
       0 \<le> vy (frac_coords (sites a ! idx)) \<and> vy (frac_coords (sites a ! idx)) \<le> 1 \<and>
       0 \<le> vz (frac_coords (sites a ! idx)) \<and> vz (frac_coords (sites a ! idx)) \<le> 1 \<and>
       (\<exists>nbrs. voronoi_get_nn_info lib a idx = Inr nbrs \<and>
          (\<forall>nn \<in> set nbrs. \<not> (nn < length (sites a) \<and> tag (sites a ! nn) = 2) \<longrightarrow>
             nn < length (sites a) \<and>
             (\<exists>r_ads r_nn. COVALENT_RADIUS c (symbol (sites a ! idx)) = Some r_ads \<and>
                COVALENT_RADIUS c (symbol (sites a ! nn)) = Some r_nn \<and>
                8 / 10 * (r_ads + r_nn) / 100 \<le> get_distance lib a idx nn)))"
proof (intro allI impI)
  fix idx assume idx: "idx < length (sites a)" and t: "tag (sites a ! idx) = 2"
  then have mem: "idx \<in> set (adsorbate_indices_of a)"
    by (simp add: adsorbate_indices_of_def)
  have set_inds: "\<And>nn. nn \<in> set (adsorbate_indices_of a) \<longleftrightarrow>
      nn < length (sites a) \<and> tag (sites a ! nn) = 2"
    by (auto simp: adsorbate_indices_of_def)
  from assms have "adsorbate_loop lib c a (adsorbate_indices_of a) (adsorbate_indices_of a) = Inr True"
    by (simp add: is_config_reasonable_def Let_def)
  from adsorbate_loop_True [OF this] mem obtain nbrs where
    box: "0 \<le> vx (frac_coords (sites a ! idx)) \<and> vx (frac_coords (sites a ! idx)) \<le> 1 \<and>
       0 \<le> vy (frac_coords (sites a ! idx)) \<and> vy (frac_coords (sites a ! idx)) \<le> 1 \<and>
       0 \<le> vz (frac_coords (sites a ! idx)) \<and> vz (frac_coords (sites a ! idx)) \<le> 1"
    and nbrs: "voronoi_get_nn_info lib a idx = Inr nbrs"
    and loop: "slab_nn_loop lib c a idx (filter (\<lambda>nn. nn \<notin> set (adsorbate_indices_of a)) nbrs) = Inr True"
    by blast
  from slab_nn_loop_True [OF loop] have
    "\<forall>nn \<in> set nbrs. \<not> (nn < length (sites a) \<and> tag (sites a ! nn) = 2) \<longrightarrow>
             nn < length (sites a) \<and>
             (\<exists>r_ads r_nn. COVALENT_RADIUS c (symbol (sites a ! idx)) = Some r_ads \<and>
                COVALENT_RADIUS c (symbol (sites a ! nn)) = Some r_nn \<and>
                8 / 10 * (r_ads + r_nn) / 100 \<le> get_distance lib a idx nn)"
    by (auto simp: set_inds)
  with box nbrs show "0 \<le> vx (frac_coords (sites a ! idx)) \<and> vx (frac_coords (sites a ! idx)) \<le> 1 \<and>
       0 \<le> vy (frac_coords (sites a ! idx)) \<and> vy (frac_coords (sites a ! idx)) \<le> 1 \<and>
       0 \<le> vz (frac_coords (sites a ! idx)) \<and> vz (frac_coords (sites a ! idx)) \<le> 1 \<and>
       (\<exists>nbrs. voronoi_get_nn_info lib a idx = Inr nbrs \<and>
          (\<forall>nn \<in> set nbrs. \<not> (nn < length (sites a) \<and> tag (sites a ! nn) = 2) \<longrightarrow>
             nn < length (sites a) \<and>
             (\<exists>r_ads r_nn. COVALENT_RADIUS c (symbol (sites a ! idx)) = Some r_ads \<and>
                COVALENT_RADIUS c (symbol (sites a ! nn)) = Some r_nn \<and>
                8 / 10 * (r_ads + r_nn) / 100 \<le> get_distance lib a idx nn)))"
    by blast
qed

lemma add_adsorbate_onto_surface_member:
  assumes "add_adsorbate_onto_surface lib c surface adsorbate bond_indices r = Inr (cfg, s)"
  shows "\<exists>ads_gratoms built kept i.
           convert_adsorbate_atoms_to_gratoms lib adsorbate = Inr ads_gratoms \<and>
           builder_add_adsorbate lib
             (surface\<lparr>gratoms_surface_atoms :=
                        filter (\<lambda>i. tag (sites surface ! i) = 1) [0 ..< length (sites surface)],
                      pbc := (True, True, False)\<rparr>) ads_gratoms bond_indices = Inr built \<and>
           filter_reasonable lib c built = Inr kept \<and>
           random_choice (length kept) r = Inr i \<and> i < length kept \<and> cfg = kept ! i \<and>
           s = str_nat i @ ''/'' @ str_nat (length kept)"
proof -
  from assms obtain ads_gratoms built kept i x where
    a: "convert_adsorbate_atoms_to_gratoms lib adsorbate = Inr ads_gratoms"
    and b: "builder_add_adsorbate lib
             (surface\<lparr>gratoms_surface_atoms :=
                        filter (\<lambda>i. tag (sites surface ! i) = 1) [0 ..< length (sites surface)],
                      pbc := (True, True, False)\<rparr>) ads_gratoms bond_indices = Inr built"
    and k: "filter_reasonable lib c built = Inr kept"
    and i: "random_choice (length kept) r = Inr i"
    and x: "py_get kept (int i) = Inr x"
    and res: "(cfg, s) = (x, str_nat i @ ''/'' @ str_nat (length kept))"
    unfolding add_adsorbate_onto_surface_def Let_def ebind_Inr_iff by blast
  from x have "i < length kept" "x = kept ! i" by (auto dest: py_get_Inr_nat)
  with a b k i res show ?thesis by blast
qed


lemma ex_convert:
  "convert_adsorbate_atoms_to_gratoms ex_lib ex_adsorbate =
     Inr (ex_adsorbate\<lparr>sites := [mk_atom ''O'' 0 2], edges := [[0]]\<rparr>)"
  by (simp add: convert_adsorbate_atoms_to_gratoms_def get_connectivity_def ex_lib_def
      ex_adsorbate_def mk_atoms_def mk_atom_def set_tags_def)

lemma ex_builder_out:
  "builder_add_adsorbate ex_lib
     (ex_tagged_slab\<lparr>gratoms_surface_atoms := [2, 3, 4], pbc := (True, True, False)\<rparr>)
     (ex_adsorbate\<lparr>sites := [mk_atom ''O'' 0 2], edges := [[0]]\<rparr>) bonds =
   Inr [ex_adslab (81 / 100), ex_adslab 1, ex_adslab (6 / 5)]"
  by (simp add: ex_lib_def ex_builder_def ex_tagged_slab_def ex_adsorbate_def ex_adslab_def
      mk_atoms_def mk_atom_def)

lemma ex_adsorbate_indices: "adsorbate_indices_of (ex_adslab z) = [5]"
  by (simp add: adsorbate_indices_of_def ex_adslab_def mk_atom_def place_def)

lemma ex_radius:
  "covalent_radius ex_constants ''Cu'' = Inr 132" "covalent_radius ex_constants ''O'' = Inr 66"
  by (simp_all add: covalent_radius_def ex_constants_def)

lemma ex_reasonable_low: "is_config_reasonable ex_lib ex_constants (ex_adslab (81 / 100)) = Inr False"
  unfolding is_config_reasonable_def ex_adsorbate_indices Let_def
  by (simp add: ex_lib_def ex_adslab_def mk_atom_def place_def vx_def vy_def vz_def ebind_def
      py_get_def ex_radius)

lemma ex_reasonable_mid: "is_config_reasonable ex_lib ex_constants (ex_adslab 1) = Inr True"
  unfolding is_config_reasonable_def ex_adsorbate_indices Let_def
  by (simp add: ex_lib_def ex_adslab_def mk_atom_def place_def vx_def vy_def vz_def ebind_def
      py_get_def ex_radius)

lemma ex_reasonable_high: "is_config_reasonable ex_lib ex_constants (ex_adslab (6 / 5)) = Inr False"
  unfolding is_config_reasonable_def ex_adsorbate_indices Let_def
  by (simp add: ex_lib_def ex_adslab_def mk_atom_def place_def vx_def vy_def vz_def ebind_def
      py_get_def ex_radius)

lemma ex_filter_reasonable:
  "filter_reasonable ex_lib ex_constants [ex_adslab (81 / 100), ex_adslab 1, ex_adslab (6 / 5)] =
     Inr [ex_adslab 1]"
  by (simp add: ex_reasonable_low ex_reasonable_mid ex_reasonable_high ebind_def)

lemma ex_add_adsorbate:
  "add_adsorbate_onto_surface ex_lib ex_constants ex_tagged_slab ex_adsorbate [0] r =
     Inr (ex_adslab 1, ''0/1'')"
proof -
  have idx: "filter (\<lambda>i. tag (sites ex_tagged_slab ! i) = 1) [0 ..< length (sites ex_tagged_slab)] = [2, 3, 4]"
    by (simp add: ex_tagged_slab_def mk_atoms_def mk_atom_def)
  show ?thesis
    unfolding add_adsorbate_onto_surface_def idx Let_def ex_convert
    by (simp add: ebind_def ex_builder_out ex_reasonable_low ex_reasonable_mid
        ex_reasonable_high random_choice_def py_get_def str_nat_digit)
qed

text \<open>
  C1. Every configuration \<^verbatim>\<open>add_adsorbate_onto_surface\<close> returns passes
  \<^verbatim>\<open>is_config_reasonable\<close>: each atom tagged 2 has its three fractional coordinates in
  \<open>[0, 1]\<close>, and every Voronoi neighbour of it that is not itself tagged 2 is at a
  minimum-image distance of at least 0.8 times the sum of the two covalent radii divided
  by 100.
\<close>

theorem add_adsorbate_onto_surface_reasonable:
  assumes "add_adsorbate_onto_surface lib c surface adsorbate bond_indices r = Inr (cfg, s)"
  shows "is_config_reasonable lib c cfg = Inr True \<and>
     (\<forall>idx < length (sites cfg). tag (sites cfg ! idx) = 2 \<longrightarrow>
       0 \<le> vx (frac_coords (sites cfg ! idx)) \<and> vx (frac_coords (sites cfg ! idx)) \<le> 1 \<and>
       0 \<le> vy (frac_coords (sites cfg ! idx)) \<and> vy (frac_coords (sites cfg ! idx)) \<le> 1 \<and>
       0 \<le> vz (frac_coords (sites cfg ! idx)) \<and> vz (frac_coords (sites cfg ! idx)) \<le> 1 \<and>
       (\<exists>nbrs. voronoi_get_nn_info lib cfg idx = Inr nbrs \<and>
          (\<forall>nn \<in> set nbrs. \<not> (nn < length (sites cfg) \<and> tag (sites cfg ! nn) = 2) \<longrightarrow>
             nn < length (sites cfg) \<and>
             (\<exists>r_ads r_nn. COVALENT_RADIUS c (symbol (sites cfg ! idx)) = Some r_ads \<and>
                COVALENT_RADIUS c (symbol (sites cfg ! nn)) = Some r_nn \<and>
                8 / 10 * (r_ads + r_nn) / 100 \<le> get_distance lib cfg idx nn))))"
proof -
  from add_adsorbate_onto_surface_member [OF assms] obtain built kept i where
    kept: "filter_reasonable lib c built = Inr kept" and i: "i < length kept" "cfg = kept ! i"
    by blast
  from filter_reasonable_sound [OF kept] i have ok: "is_config_reasonable lib c cfg = Inr True"
    by simp
  from ok is_config_reasonable_True [OF ok] show ?thesis by blast
qed

theorem add_adsorbate_onto_surface_reasonable_witness:
  "add_adsorbate_onto_surface ex_lib ex_constants ex_tagged_slab ex_adsorbate [0] 0 =
     Inr (ex_adslab 1, ''0/1'') \<and>
   is_config_reasonable ex_lib ex_constants (ex_adslab 1) = Inr True \<and>
   tag (sites (ex_adslab 1) ! 5) = 2 \<and>
   vz (frac_coords (sites (ex_adslab 1) ! 5)) \<le> 1 \<and>
   voronoi_get_nn_info ex_lib (ex_adslab 1) 5 = Inr [3, 4, 5] \<and>
   8 / 10 * (66 + 132) / 100 \<le> get_distance ex_lib (ex_adslab 1) 5 4"
proof -
  have run: "add_adsorbate_onto_surface ex_lib ex_constants ex_tagged_slab ex_adsorbate [0] 0 =
     Inr (ex_adslab 1, ''0/1'')"
    by (rule ex_add_adsorbate)
  from add_adsorbate_onto_surface_reasonable [OF run]
  have "is_config_reasonable ex_lib ex_constants (ex_adslab 1) = Inr True" by blast
  with run show ?thesis
    by (simp add: ex_adslab_def ex_lib_def mk_atom_def place_def vz_def)
qed

section \<open>Properties of the surface chooser\<close>

lemma bulk_cn_loop_lib:
  "voronoi_get_cn lib' = voronoi_get_cn lib \<Longrightarrow>
     bulk_cn_loop lib' b acc ks = bulk_cn_loop lib b acc ks"
  by (induction ks arbitrary: acc) (simp_all split: sum.splits)

lemma voronoi_loop_lib:
  "voronoi_get_cn lib' = voronoi_get_cn lib \<Longrightarrow>
     voronoi_loop lib' surf com d k xs = voronoi_loop lib surf com d k xs"
  by (induction xs arbitrary: k) (simp_all split: sum.splits)

lemma calculate_coordination_of_bulk_atoms_lib:
  assumes "voronoi_get_cn lib' = voronoi_get_cn lib"
    and "equivalent_indices lib' = equivalent_indices lib"
  shows "calculate_coordination_of_bulk_atoms lib' bulk =
         calculate_coordination_of_bulk_atoms lib bulk"
  by (simp add: calculate_coordination_of_bulk_atoms_def bulk_cn_loop_lib [OF assms(1)] assms(2))

lemma find_surface_atoms_with_voronoi_lib:
  assumes "voronoi_get_cn lib' = voronoi_get_cn lib"
    and "equivalent_indices lib' = equivalent_indices lib"
  shows "find_surface_atoms_with_voronoi lib' bulk surf =
         find_surface_atoms_with_voronoi lib bulk surf"
  by (simp add: find_surface_atoms_with_voronoi_def voronoi_loop_lib [OF assms(1)]
      calculate_coordination_of_bulk_atoms_lib [OF assms] split: sum.splits)

lemma tag_surface_atoms_lib:
  assumes "voronoi_get_cn lib' = voronoi_get_cn lib"
    and "equivalent_indices lib' = equivalent_indices lib"
  shows "tag_surface_atoms lib' bulk surf = tag_surface_atoms lib bulk surf"
  by (simp add: tag_surface_atoms_def find_surface_atoms_with_voronoi_lib [OF assms])

lemma tile_atoms_lib:
  "repeat_atoms lib' = repeat_atoms lib \<Longrightarrow> MIN_XY c' = MIN_XY c \<Longrightarrow>
     tile_atoms lib' c' a = tile_atoms lib c a"
  by (simp add: tile_atoms_def)

lemma choose_surface_pkl_reads:
  assumes "voronoi_get_cn lib' = voronoi_get_cn lib"
    and "equivalent_indices lib' = equivalent_indices lib"
    and "repeat_atoms lib' = repeat_atoms lib"
    and "MIN_XY c' = MIN_XY c"
    and "enumeration_files w' (precomputed_path @ str_int index @ ''.pkl'') =
         enumeration_files w (precomputed_path @ str_int index @ ''.pkl'')"
  shows "choose_surface_pkl lib' c' w' bulk index r = choose_surface_pkl lib c w bulk index r"
  using assms(5)
  by (simp add: choose_surface_pkl_def read_from_precomputed_enumerations_def Let_def
      tile_atoms_lib [OF assms(3,4)] tag_surface_atoms_lib [OF assms(1,2)])

lemma choose_surface_pkl_Inr:
  assumes "choose_surface_pkl lib c w bulk index r = Inr (surf, millers, shft, is_top, s)"
  shows "\<exists>info i struct tiled.
           enumeration_files w (precomputed_path @ str_int index @ ''.pkl'') = Some info \<and>
           random_choice (length info) r = Inr i \<and> i < length info \<and>
           info ! i = (struct, millers, shft, is_top) \<and>
           tile_atoms lib c struct = Inr tiled \<and>
           tag_surface_atoms lib bulk tiled = Inr surf \<and>
           s = str_nat i @ ''/'' @ str_nat (length info)"
proof -
  from assms obtain info where
    fl: "enumeration_files w (precomputed_path @ str_int index @ ''.pkl'') = Some info"
    and rd: "read_from_precomputed_enumerations w index = Inr info"
    by (auto simp: choose_surface_pkl_def read_from_precomputed_enumerations_def Let_def
        ebind_Inr_iff split: option.splits)
  from assms rd obtain i entry where
    i: "random_choice (length info) r = Inr i"
    and entry: "py_get info (int i) = Inr entry"
    and rest: "(case entry of (surface_struct, millers', shift', top') \<Rightarrow>
                 ebind (tile_atoms lib c surface_struct) (\<lambda>surface_atoms.
                 ebind (tag_surface_atoms lib bulk surface_atoms) (\<lambda>tagged.
                   Inr (tagged, millers', shift', top',
                        str_nat i @ ''/'' @ str_nat (length info))))) =
               Inr (surf, millers, shft, is_top, s)"
    by (auto simp: choose_surface_pkl_def Let_def ebind_Inr_iff)
  from entry have ei: "i < length info" "entry = info ! i"
    by (auto dest: py_get_Inr_nat)
  obtain struct m' s' t' where e: "entry = (struct, m', s', t')"
    by (cases entry) auto
  from rest e obtain tiled where
    t: "tile_atoms lib c struct = Inr tiled" "tag_surface_atoms lib bulk tiled = Inr surf"
    and eqs: "m' = millers" "s' = shft" "t' = is_top"
    and s: "s = str_nat i @ ''/'' @ str_nat (length info)"
    by (auto simp: ebind_Inr_iff)
  from ei e eqs have "info ! i = (struct, millers, shft, is_top)" by simp
  with fl i ei(1) t s show ?thesis by blast
qed

lemma tile_atoms_Inr:
  assumes "tile_atoms lib c a = Inr tiled"
  shows "linalg_norm (fst (cell a)) \<noteq> 0 \<and> linalg_norm (fst (snd (cell a))) \<noteq> 0 \<and>
         tiled = repeat_atoms lib a
                   (\<lceil>MIN_XY c / linalg_norm (fst (cell a))\<rceil>,
                    \<lceil>MIN_XY c / linalg_norm (fst (snd (cell a)))\<rceil>, 1)"
  using assms
  by (auto simp: tile_atoms_def Let_def ebind_Inr_iff ceil_div_def split: if_splits)

lemma ex_tag_surface_atoms: "tag_surface_atoms ex_lib ex_bulk ex_slab = Inr ex_tagged_slab"
  by (simp add: tag_surface_atoms_def ex_voronoi_tags ex_height_tags set_tags_def)
     (simp add: ex_slab_def ex_tagged_slab_def mk_atoms_def mk_atom_def)

lemma ex_tile_atoms: "tile_atoms ex_lib ex_constants ex_slab = Inr ex_slab"
  by (simp add: tile_atoms_def ex_slab_def mk_atoms_def mk_atom_def linalg_norm_def vx_def vy_def
      vz_def ex_constants_def ceil_div_def ebind_def ex_lib_def ex_repeat_def ex_image_def
      vscale_def)

lemma ex_repeat_unit: "repeat_atoms ex_lib ex_unit_slab (2, 2, 1) = ex_tiled_slab 0"
  by (simp add: ex_lib_def ex_repeat_def ex_image_def vscale_def ex_unit_slab_def
      ex_tiled_slab_def ex_tile_def mk_atoms_def vx_def vy_def vz_def upt_rec [of 0 "Suc (Suc 0)"]
      upt_rec [of "Suc 0" "Suc (Suc 0)"] numeral_2_eq_2)

lemma ex_tile_unit: "tile_atoms ex_lib ex_constants ex_unit_slab = Inr (ex_tiled_slab 0)"
proof -
  have n: "linalg_norm (fst (cell ex_unit_slab)) = 5"
    "linalg_norm (fst (snd (cell ex_unit_slab))) = 5"
    by (simp_all add: ex_unit_slab_def linalg_norm_def vx_def vy_def vz_def)
  have c: "\<lceil>(8 :: real) / 5\<rceil> = 2" by simp
  show ?thesis
    unfolding tile_atoms_def Let_def n
    by (simp add: ex_constants_def ceil_div_def ebind_def c ex_repeat_unit)
qed

lemma ex_tiled_voronoi_tags:
  "find_surface_atoms_with_voronoi ex_lib ex_bulk (ex_tiled_slab 0) = Inr [0, 0, 0, 0]"
proof -
  have com: "calculate_center_of_mass (ex_tiled_slab 0) = Inr (1 / 2, 1 / 2, 1 / 2)"
    by (simp add: calculate_center_of_mass_def ex_tiled_slab_def ex_tile_def mk_atoms_def
        vx_def vy_def vz_def)
  show ?thesis
    unfolding find_surface_atoms_with_voronoi_def ex_bulk_cn com
    by (simp add: ex_tiled_slab_def ex_tile_def mk_atoms_def vz_def)
qed

lemma ex_tiled_height_tags:
  "find_surface_atoms_by_height (ex_tiled_slab 0) = Inr [1, 1, 1, 1]"
  by (simp add: find_surface_atoms_by_height_def ex_tiled_slab_def ex_tile_def mk_atoms_def
      linalg_norm_def vx_def vy_def vz_def)

lemma ex_tag_tiled: "tag_surface_atoms ex_lib ex_bulk (ex_tiled_slab 0) = Inr (ex_tiled_slab 1)"
  by (simp add: tag_surface_atoms_def ex_tiled_voronoi_tags ex_tiled_height_tags set_tags_def)
     (simp add: ex_tiled_slab_def ex_tile_def mk_atoms_def)

lemma str_int_digit: "0 \<le> i \<Longrightarrow> i < 10 \<Longrightarrow> str_int i = [''0123456789'' ! nat i]"
  by (simp add: str_int_def str_nat_digit)

lemma ex_choose_surface:
  "choose_surface_pkl ex_lib ex_constants ex_world ex_bulk 7 1 =
     Inr (ex_tagged_slab, (1, 0, 0), 2469 / 20000, False, ''1/2'')"
  by (simp add: choose_surface_pkl_def read_from_precomputed_enumerations_def ex_world_def
      str_int_digit random_choice_def py_get_def ebind_def ex_tile_atoms ex_tag_surface_atoms
      str_nat_digit)

lemma ex_choose_tiled_surface:
  "choose_surface_pkl ex_lib ex_constants ex_world ex_bulk 8 0 =
     Inr (ex_tiled_slab 1, (1, 1, 1), 1 / 2, True, ''0/1'')"
  by (simp add: choose_surface_pkl_def read_from_precomputed_enumerations_def ex_world_def
      str_int_digit random_choice_def py_get_def ebind_def ex_tile_unit ex_tag_tiled
      str_nat_digit)

text \<open>
  C6. A call of \<^verbatim>\<open>choose_surface_pkl\<close> that returns has unpickled the file
  \<^verbatim>\<open><index>.pkl\<close> of the directory of precomputed enumerations and has drawn one index with
  \<^verbatim>\<open>np.random.choice\<close> over all entries of that file, with no weights: the raw value modulo
  the number of entries. It returns the structure of that entry, repeated
  \<open>\<lceil>MIN_XY / |c\<^sub>1|\<rceil>\<close> by \<open>\<lceil>MIN_XY / |c\<^sub>2|\<rceil>\<close> by 1 times and then tagged, with the Miller
  indices, shift and top flag of the entry and the string
  \<^verbatim>\<open>[chosen surface index]/[total surfaces]\<close>. Its outcome is the same under any change of what
  \<^verbatim>\<open>enumerate_surfaces\<close> reads (the standardisation, the Miller indices, the slab generator,
  the symmetry operations, wrapping and rotation, \<^verbatim>\<open>MAX_MILLER\<close>) and of every other file.
\<close>

theorem choose_surface_pkl_from_file:
  assumes "choose_surface_pkl lib c w bulk index r = Inr (surf, millers, shft, is_top, s)"
  shows "(\<exists>info i struct tiled.
            enumeration_files w (precomputed_path @ str_int index @ ''.pkl'') = Some info \<and>
            random_choice (length info) r = Inr i \<and> i = r mod length info \<and> i < length info \<and>
            info ! i = (struct, millers, shft, is_top) \<and>
            tile_atoms lib c struct = Inr tiled \<and>
            linalg_norm (fst (cell struct)) \<noteq> 0 \<and> linalg_norm (fst (snd (cell struct))) \<noteq> 0 \<and>
            tiled = repeat_atoms lib struct
                      (\<lceil>MIN_XY c / linalg_norm (fst (cell struct))\<rceil>,
                       \<lceil>MIN_XY c / linalg_norm (fst (snd (cell struct)))\<rceil>, 1) \<and>
            tag_surface_atoms lib bulk tiled = Inr surf \<and>
            s = str_nat i @ ''/'' @ str_nat (length info)) \<and>
         (\<forall>lib' c' w'.
            voronoi_get_cn lib' = voronoi_get_cn lib \<and>
            equivalent_indices lib' = equivalent_indices lib \<and>
            repeat_atoms lib' = repeat_atoms lib \<and>
            MIN_XY c' = MIN_XY c \<and>
            enumeration_files w' (precomputed_path @ str_int index @ ''.pkl'') =
              enumeration_files w (precomputed_path @ str_int index @ ''.pkl'') \<longrightarrow>
            choose_surface_pkl lib' c' w' bulk index r =
              Inr (surf, millers, shft, is_top, s))"
proof -
  from choose_surface_pkl_Inr [OF assms] obtain info i struct tiled where
    a: "enumeration_files w (precomputed_path @ str_int index @ ''.pkl'') = Some info"
      "random_choice (length info) r = Inr i" "i < length info"
      "info ! i = (struct, millers, shft, is_top)"
      "tile_atoms lib c struct = Inr tiled"
      "tag_surface_atoms lib bulk tiled = Inr surf"
      "s = str_nat i @ ''/'' @ str_nat (length info)"
    by blast
  from a(2) have m: "i = r mod length info"
    by (auto simp: random_choice_def split: if_splits)
  from tile_atoms_Inr [OF a(5)] have b:
    "linalg_norm (fst (cell struct)) \<noteq> 0" "linalg_norm (fst (snd (cell struct))) \<noteq> 0"
    "tiled = repeat_atoms lib struct
               (\<lceil>MIN_XY c / linalg_norm (fst (cell struct))\<rceil>,
                \<lceil>MIN_XY c / linalg_norm (fst (snd (cell struct)))\<rceil>, 1)"
    by simp_all
  have c: "\<forall>lib' c' w'.
            voronoi_get_cn lib' = voronoi_get_cn lib \<and>
            equivalent_indices lib' = equivalent_indices lib \<and>
            repeat_atoms lib' = repeat_atoms lib \<and>
            MIN_XY c' = MIN_XY c \<and>
            enumeration_files w' (precomputed_path @ str_int index @ ''.pkl'') =
              enumeration_files w (precomputed_path @ str_int index @ ''.pkl'') \<longrightarrow>
            choose_surface_pkl lib' c' w' bulk index r =
              Inr (surf, millers, shft, is_top, s)"
    using choose_surface_pkl_reads [of _ lib _ c _ index w bulk r] assms by auto
  from a m b c show ?thesis by blast
qed

text \<open>
  The witness reads two files: the unit slab of \<^verbatim>\<open>8.pkl\<close> has a cell of 5 by 5 Angstrom and
  is repeated 2 by 2 by 1 into four atoms; the run on \<^verbatim>\<open>7.pkl\<close> is unchanged when the
  functions of the enumeration, the constant and the bulk file are replaced.
\<close>

theorem choose_surface_pkl_from_file_witness:
  "choose_surface_pkl ex_lib ex_constants ex_world ex_bulk 8 0 =
     Inr (ex_tiled_slab 1, (1, 1, 1), 1 / 2, True, ''0/1'') \<and>
   tile_atoms ex_lib ex_constants ex_unit_slab = Inr (repeat_atoms ex_lib ex_unit_slab (2, 2, 1)) \<and>
   length (sites ex_unit_slab) = 1 \<and>
   length (sites (repeat_atoms ex_lib ex_unit_slab (2, 2, 1))) = 4 \<and>
   map position (sites (repeat_atoms ex_lib ex_unit_slab (2, 2, 1))) =
     [(5 / 2, 5 / 2, 5), (5 / 2, 15 / 2, 5), (15 / 2, 5 / 2, 5), (15 / 2, 15 / 2, 5)] \<and>
   choose_surface_pkl ex_lib ex_constants ex_world ex_bulk 7 1 =
     Inr (ex_tagged_slab, (1, 0, 0), 2469 / 20000, False, ''1/2'') \<and>
   choose_surface_pkl
     (ex_lib\<lparr>conventional_standard_structure := (\<lambda>a. ex_bulk),
             distinct_miller_indices := (\<lambda>a m. [(1, 1, 0)]),
             get_slabs := (\<lambda>a m. [(ex_slab, 0)])\<rparr>)
     (ex_constants\<lparr>MAX_MILLER := 5\<rparr>)
     (ex_world\<lparr>bulk_files := Map.empty\<rparr>) ex_bulk 7 1 =
     Inr (ex_tagged_slab, (1, 0, 0), 2469 / 20000, False, ''1/2'')"
proof -
  have run8: "choose_surface_pkl ex_lib ex_constants ex_world ex_bulk 8 0 =
     Inr (ex_tiled_slab 1, (1, 1, 1), 1 / 2, True, ''0/1'')"
    by (rule ex_choose_tiled_surface)
  have file8: "enumeration_files ex_world (precomputed_path @ str_int 8 @ ''.pkl'') =
      Some [(ex_unit_slab, (1, 1, 1), 1 / 2, True)]"
    by (simp add: ex_world_def str_int_digit)
  have n: "linalg_norm (fst (cell ex_unit_slab)) = 5"
    "linalg_norm (fst (snd (cell ex_unit_slab))) = 5"
    by (simp_all add: ex_unit_slab_def linalg_norm_def vx_def vy_def vz_def)
  have c: "\<lceil>(8 :: real) / 5\<rceil> = 2" by simp
  from choose_surface_pkl_from_file [OF run8] obtain info i struct tiled where
    g: "enumeration_files ex_world (precomputed_path @ str_int 8 @ ''.pkl'') = Some info"
      "i < length info" "info ! i = (struct, (1, 1, 1), 1 / 2, True)"
      "tile_atoms ex_lib ex_constants struct = Inr tiled"
      "tiled = repeat_atoms ex_lib struct
                 (\<lceil>MIN_XY ex_constants / linalg_norm (fst (cell struct))\<rceil>,
                  \<lceil>MIN_XY ex_constants / linalg_norm (fst (snd (cell struct)))\<rceil>, 1)"
    by blast
  from g(1) file8 have info: "info = [(ex_unit_slab, (1, 1, 1), 1 / 2, True)]" by simp
  with g(2,3) have "struct = ex_unit_slab" by simp
  with g(4,5) have tile: "tile_atoms ex_lib ex_constants ex_unit_slab =
      Inr (repeat_atoms ex_lib ex_unit_slab (2, 2, 1))"
    by (simp add: n c ex_constants_def)
  have sz1: "length (sites ex_unit_slab) = 1"
    by (simp add: ex_unit_slab_def)
  have sz: "length (sites (repeat_atoms ex_lib ex_unit_slab (2, 2, 1))) = 4"
    "map position (sites (repeat_atoms ex_lib ex_unit_slab (2, 2, 1))) =
       [(5 / 2, 5 / 2, 5), (5 / 2, 15 / 2, 5), (15 / 2, 5 / 2, 5), (15 / 2, 15 / 2, 5)]"
    unfolding ex_repeat_unit by (simp_all add: ex_tiled_slab_def ex_tile_def mk_atoms_def)
  have run: "choose_surface_pkl ex_lib ex_constants ex_world ex_bulk 7 1 =
     Inr (ex_tagged_slab, (1, 0, 0), 2469 / 20000, False, ''1/2'')"
    by (rule ex_choose_surface)
  from choose_surface_pkl_from_file [OF run] have
    "\<forall>lib' c' w'.
            voronoi_get_cn lib' = voronoi_get_cn ex_lib \<and>
            equivalent_indices lib' = equivalent_indices ex_lib \<and>
            repeat_atoms lib' = repeat_atoms ex_lib \<and>
            MIN_XY c' = MIN_XY ex_constants \<and>
            enumeration_files w' (precomputed_path @ str_int 7 @ ''.pkl'') =
              enumeration_files ex_world (precomputed_path @ str_int 7 @ ''.pkl'') \<longrightarrow>
            choose_surface_pkl lib' c' w' ex_bulk 7 1 =
              Inr (ex_tagged_slab, (1, 0, 0), 2469 / 20000, False, ''1/2'')"
    by blast
  then have "choose_surface_pkl
     (ex_lib\<lparr>conventional_standard_structure := (\<lambda>a. ex_bulk),
             distinct_miller_indices := (\<lambda>a m. [(1, 1, 0)]),
             get_slabs := (\<lambda>a m. [(ex_slab, 0)])\<rparr>)
     (ex_constants\<lparr>MAX_MILLER := 5\<rparr>)
     (ex_world\<lparr>bulk_files := Map.empty\<rparr>) ex_bulk 7 1 =
     Inr (ex_tagged_slab, (1, 0, 0), 2469 / 20000, False, ''1/2'')"
    by simp
  with run run8 tile sz1 sz show ?thesis by simp
qed

section \<open>Properties of the sampler\<close>

lemma then_call_Inr:
  "then_call s m k = (tr, Inr y) \<longleftrightarrow> (\<exists>x tr'. m = Inr x \<and> k x = (tr', Inr y) \<and> tr = s # tr')"
  by (cases m) (auto simp: then_call_def split: prod.splits)

lemma then_draw_Inr:
  "then_draw s rng m k = (tr, Inr y) \<longleftrightarrow>
     (\<exists>x tr'. m (shd rng) = Inr x \<and> k (stl rng) x = (tr', Inr y) \<and> tr = s # tr')"
  by (cases "m (shd rng)") (auto simp: then_draw_def split: prod.splits)

lemma sample_structures_calls_Inr:
  assumes "sample_structures_calls lib c w bulk_database adsorbate_database weights rng =
             (tr, Inr (ad, bd))"
  shows "\<exists>n_elems elem_str bulk mpid index bulk_str surface0 millers shft0 is_top surf_str
            adsorbate smiles bond_indices ads_str adsorbed0 cfg_str found.
           choose_n_elems weights (shd rng) = Inr (n_elems, elem_str) \<and>
           choose_bulk_pkl w bulk_database n_elems (shd (stl rng)) =
             Inr (bulk, mpid, index, bulk_str) \<and>
           choose_surface_pkl lib c w bulk index (shd (stl (stl rng))) =
             Inr (surface0, millers, shft0, is_top, surf_str) \<and>
           choose_adsorbate_pkl w adsorbate_database (shd (stl (stl (stl rng)))) =
             Inr (adsorbate, smiles, bond_indices, ads_str) \<and>
           add_adsorbate_onto_surface lib c surface0 adsorbate bond_indices
               (shd (stl (stl (stl (stl rng))))) =
             Inr (adsorbed0, cfg_str) \<and>
           find_sites (constrain_surface surface0) (constrain_surface adsorbed0) bond_indices =
             Inr found \<and>
           ad = \<lparr>adsorbed_bulk_atomsobject = constrain_surface adsorbed0,
                 adsorbed_bulk_metadata =
                   (mpid, millers, py_round shft0 3, is_top, smiles, found),
                 adsorbed_bulk_samplingstr =
                   (elem_str @ ''_'' @ bulk_str @ ''_'' @ surf_str) @ ''_'' @
                   (ads_str @ ''_'' @ cfg_str)\<rparr> \<and>
           bd = \<lparr>bulk_atomsobject = constrain_surface surface0,
                 bulk_metadata = (mpid, millers, py_round shft0 3, is_top),
                 bulk_samplingstr = elem_str @ ''_'' @ bulk_str @ ''_'' @ surf_str\<rparr> \<and>
           tr = [Call_choose_n_elems, Call_choose_bulk_pkl, Call_choose_surface_pkl,
                 Call_choose_adsorbate_pkl, Call_add_adsorbate_onto_surface,
                 Call_constrain_surface_adsorbed, Call_constrain_surface_bare,
                 Call_find_sites]"
  using assms unfolding sample_structures_calls_def
  by (auto simp: then_call_Inr then_draw_Inr Let_def split: prod.splits)

lemma sample_structures_run:
  assumes "sample_structures lib c w bulk_database adsorbate_database weights rng = Inr (ad, bd)"
  shows "\<exists>tr. sample_structures_calls lib c w bulk_database adsorbate_database weights rng =
           (tr, Inr (ad, bd))"
  using assms unfolding sample_structures_def
  by (cases "sample_structures_calls lib c w bulk_database adsorbate_database weights rng") simp

lemma sites_constrain_surface: "sites (constrain_surface a) = sites a"
  by (simp add: constrain_surface_def)

lemma find_sites_Inr:
  "find_sites surface adsorbed bond_indices = Inr found \<Longrightarrow>
     length found = length bond_indices \<and>
     (\<forall>k < length bond_indices.
        \<exists>a. py_get (sites adsorbed) (int (length (sites surface)) + bond_indices ! k) = Inr a \<and>
            found ! k = (np_round (vx (position a)) 2, np_round (vy (position a)) 2,
                         np_round (vz (position a)) 2))"
proof (induction bond_indices arbitrary: found)
  case Nil
  then show ?case by simp
next
  case (Cons idx rest)
  from Cons.prems obtain a more where
    a: "py_get (sites adsorbed) (int (length (sites surface)) + idx) = Inr a"
    and more: "find_sites surface adsorbed rest = Inr more"
    and found: "found = (np_round (vx (position a)) 2, np_round (vy (position a)) 2,
                         np_round (vz (position a)) 2) # more"
    by (auto simp: Let_def ebind_Inr_iff)
  from Cons.IH [OF more] have len: "length more = length rest"
    and each: "\<forall>k < length rest.
        \<exists>a. py_get (sites adsorbed) (int (length (sites surface)) + rest ! k) = Inr a \<and>
            more ! k = (np_round (vx (position a)) 2, np_round (vy (position a)) 2,
                        np_round (vz (position a)) 2)"
    by simp_all
  show ?case
  proof (intro conjI allI impI)
    show "length found = length (idx # rest)" using len found by simp
  next
    fix k assume k: "k < length (idx # rest)"
    show "\<exists>a. py_get (sites adsorbed) (int (length (sites surface)) + (idx # rest) ! k) = Inr a \<and>
            found ! k = (np_round (vx (position a)) 2, np_round (vy (position a)) 2,
                         np_round (vz (position a)) 2)"
    proof (cases k)
      case 0
      with a found show ?thesis by simp
    next
      case (Suc j)
      with k each found show ?thesis by simp
    qed
  qed
qed

subsection \<open>Rounding in double precision\<close>

lemma floor_log2_eq:
  assumes "2 ^ k \<le> \<bar>x\<bar>" and "\<bar>x\<bar> < 2 ^ Suc k"
  shows "\<lfloor>log 2 \<bar>x\<bar>\<rfloor> = int k"
proof -
  have "(0 :: real) < 2 ^ k" by simp
  with assms(1) have pos: "0 < \<bar>x\<bar>" by linarith
  have lo: "real k \<le> log 2 \<bar>x\<bar>"
    using assms(1) pos by (simp add: le_log_iff powr_realpow)
  have hi: "log 2 \<bar>x\<bar> < real k + 1"
  proof -
    have pw: "(2 :: real) powr real (Suc k) = 2 ^ Suc k"
      by (rule powr_realpow) simp
    have "log 2 \<bar>x\<bar> < real (Suc k) \<longleftrightarrow> \<bar>x\<bar> < 2 powr real (Suc k)"
      by (rule log_less_iff) (use pos in simp_all)
    with assms(2) pw have "log 2 \<bar>x\<bar> < real (Suc k)" by (simp only:)
    then show ?thesis by simp
  qed
  from lo hi show ?thesis by (simp add: floor_eq_iff)
qed

lemma float64_eval:
  assumes "2 ^ k \<le> \<bar>x\<bar>" and "\<bar>x\<bar> < 2 ^ Suc k" and "k \<le> 52"
  shows "float64 x = of_int (round_half_even (x * 2 ^ (52 - k))) / 2 ^ (52 - k)"
proof -
  have "(0 :: real) < 2 ^ k" by simp
  with assms(1) have "0 < \<bar>x\<bar>" by linarith
  then have nz: "x \<noteq> 0" by simp
  have e: "\<lfloor>log 2 \<bar>x\<bar>\<rfloor> - 52 = - int (52 - k)"
    using floor_log2_eq [OF assms(1,2)] assms(3) by simp
  have p: "(2 :: real) powr of_int (- int (52 - k)) = 1 / 2 ^ (52 - k)"
    by (simp add: powr_minus powr_realpow divide_inverse)
  show ?thesis
    using nz by (simp add: float64_def e p Let_def del: of_int_minus)
qed

lemma np_round_5: "np_round 5 2 = 5"
proof -
  have a: "float64 (5 * 10 ^ 2) = 500"
    by (subst float64_eval [of 8]) (simp_all add: round_half_even_def)
  have b: "round_half_even 500 = 500"
    by (simp add: round_half_even_def)
  have c: "float64 (500 / 10 ^ 2) = 5"
    by (subst float64_eval [of 2]) (simp_all add: round_half_even_def)
  show ?thesis unfolding np_round_def a b using c by simp
qed

lemma np_round_10: "np_round 10 2 = 10"
proof -
  have a: "float64 (10 * 10 ^ 2) = 1000"
    by (subst float64_eval [of 9]) (simp_all add: round_half_even_def)
  have b: "round_half_even 1000 = 1000"
    by (simp add: round_half_even_def)
  have c: "float64 (1000 / 10 ^ 2) = 10"
    by (subst float64_eval [of 3]) (simp_all add: round_half_even_def)
  show ?thesis unfolding np_round_def a b using c by simp
qed

lemma np_round_x: "np_round (2689 / 512) 2 = 21 / 4"
proof -
  have a: "float64 (2689 / 512 * 10 ^ 2) = 67225 / 128"
    by (subst float64_eval [of 9]) (simp_all add: round_half_even_def Let_def)
  have b: "round_half_even (67225 / 128) = 525"
    by (simp add: round_half_even_def Let_def)
  have c: "float64 (525 / 10 ^ 2) = 21 / 4"
    by (subst float64_eval [of 2]) (simp_all add: round_half_even_def Let_def)
  show ?thesis unfolding np_round_def a b using c by simp
qed

text \<open>
  The doubles nearest to 2.675 and 1.115 round to the doubles nearest to 2.68 and 1.12, as
  numpy does: the products are rounded to 267.5 and 111.5 before the integer is taken. The
  correctly rounded decimals of the same two doubles are 2.67 and 1.11.
\<close>

lemma np_round_2675:
  "np_round (3011782250804019 / 2 ^ 50) 2 = 6034823500676465 / 2 ^ 51 \<and>
   py_round (3011782250804019 / 2 ^ 50) 2 = 267 / 100"
proof -
  have a: "float64 (3011782250804019 / 2 ^ 50 * 10 ^ 2) = 535 / 2"
    by (subst float64_eval [of 8]) (simp_all add: round_half_even_def Let_def)
  have b: "round_half_even (535 / 2) = 268"
    by (simp add: round_half_even_def Let_def)
  have c: "float64 (268 / 10 ^ 2) = 6034823500676465 / 2 ^ 51"
    by (subst float64_eval [of 1]) (simp_all add: round_half_even_def Let_def)
  have d: "py_round (3011782250804019 / 2 ^ 50) 2 = 267 / 100"
    by (simp add: py_round_def round_half_even_def Let_def)
  show ?thesis
    unfolding np_round_def a b using c d by simp
qed

lemma np_round_1115:
  "np_round (5021513584518103 / 2 ^ 52) 2 = 1261007895663739 / 2 ^ 50 \<and>
   py_round (5021513584518103 / 2 ^ 52) 2 = 111 / 100"
proof -
  have a: "float64 (5021513584518103 / 2 ^ 52 * 10 ^ 2) = 223 / 2"
    by (subst float64_eval [of 6]) (simp_all add: round_half_even_def Let_def)
  have b: "round_half_even (223 / 2) = 112"
    by (simp add: round_half_even_def Let_def)
  have c: "float64 (112 / 10 ^ 2) = 1261007895663739 / 2 ^ 50"
    by (subst float64_eval [of 0]) (simp_all add: round_half_even_def Let_def)
  have d: "py_round (5021513584518103 / 2 ^ 52) 2 = 111 / 100"
    by (simp add: py_round_def round_half_even_def Let_def)
  show ?thesis
    unfolding np_round_def a b using c d by simp
qed

subsection \<open>The sample run\<close>

lemma ex_choose_n_elems: "choose_n_elems (Some [(1, 1)]) 0 = Inr (1, ''1/1'')"
  by (simp add: choose_n_elems_def isclose_def random_choice_p_def str_int_digit str_nat_digit)

lemma ex_choose_bulk:
  "choose_bulk_pkl ex_world ''bulks.pkl'' 1 0 = Inr (ex_bulk, ''mp-30'', 7, ''0/1'')"
  by (simp add: choose_bulk_pkl_def ex_world_def random_choice_def py_get_def ebind_def)

lemma ex_choose_adsorbate:
  "choose_adsorbate_pkl ex_world ''adsorbates.pkl'' 0 = Inr (ex_adsorbate, ''*O'', [0], ''0/2'')"
  by (simp add: choose_adsorbate_pkl_def ex_world_def random_choice_def py_get_def ebind_def
      str_nat_digit)

lemma ex_choose_hydrogen:
  "choose_adsorbate_pkl ex_world ''adsorbates.pkl'' 1 = Inr (ex_hydrogen, ''*H'', [0], ''1/2'')"
  by (simp add: choose_adsorbate_pkl_def ex_world_def random_choice_def py_get_def ebind_def
      str_nat_digit)

lemma py_round_shift: "py_round (2469 / 20000) 3 = 123 / 1000"
  by (simp add: py_round_def round_half_even_def Let_def)

lemma ex_find_sites:
  "find_sites (constrain_surface ex_tagged_slab) (constrain_surface (ex_adslab 1)) [0] =
     Inr [(21 / 4, 5, 10)]"
  by (simp add: constrain_surface_def ex_tagged_slab_def ex_adslab_def mk_atoms_def mk_atom_def
      place_def py_get_def ebind_def vx_def vy_def vz_def np_round_5 np_round_10 np_round_x)

lemma ex_choose_surface_Suc:
  "choose_surface_pkl ex_lib ex_constants ex_world ex_bulk 7 (Suc 0) =
     Inr (ex_tagged_slab, (1, 0, 0), 2469 / 20000, False, ''1/2'')"
  using ex_choose_surface by simp

lemma ex_sample_calls:
  "sample_structures_calls ex_lib ex_constants ex_world ''bulks.pkl'' ''adsorbates.pkl''
     (Some [(1, 1)]) ex_rng =
   ([Call_choose_n_elems, Call_choose_bulk_pkl, Call_choose_surface_pkl,
     Call_choose_adsorbate_pkl, Call_add_adsorbate_onto_surface,
     Call_constrain_surface_adsorbed, Call_constrain_surface_bare, Call_find_sites],
    Inr (ex_adsorbed_dict, ex_bulk_dict))"
  by (simp add: sample_structures_calls_def then_call_def then_draw_def ex_rng_def
      ex_choose_n_elems ex_choose_bulk ex_choose_surface_Suc ex_choose_adsorbate
      ex_add_adsorbate ex_find_sites py_round_shift Let_def ex_adsorbed_dict_def
      ex_bulk_dict_def del: find_sites.simps)

lemma ex_sample:
  "sample_structures ex_lib ex_constants ex_world ''bulks.pkl'' ''adsorbates.pkl''
     (Some [(1, 1)]) ex_rng = Inr (ex_adsorbed_dict, ex_bulk_dict)"
  by (simp add: sample_structures_def ex_sample_calls)

text \<open>
  C5. A call of \<^verbatim>\<open>sample_structures\<close> that returns has made its calls in this order: the
  number of elements, the bulk, the surface of that bulk, the adsorbate, the placement of the
  adsorbate on the surface, the constraint of the adsorbed surface, the constraint of the
  bare surface, and the binding sites. The order shows in the generator: the five choices
  take its first, second, third, fourth and fifth raw value. Constraining appends to each
  structure one \<^verbatim>\<open>FixAtoms\<close> mask that holds exactly the atoms tagged 0 and changes nothing
  else. The first dictionary holds the constrained adsorbed surface and the metadata (mpid,
  millers, shift rounded to 3 decimals, top, smiles, sites), where the sites are the
  positions, rounded to 2 decimals as numpy rounds, of the atoms at the length of the surface
  plus each bond index; the second holds the constrained bare surface and (mpid, millers,
  shift rounded to 3 decimals, top).
\<close>

theorem sample_structures_order_and_result:
  assumes "sample_structures lib c w bulk_database adsorbate_database weights rng = Inr (ad, bd)"
  shows "fst (sample_structures_calls lib c w bulk_database adsorbate_database weights rng) =
           [Call_choose_n_elems, Call_choose_bulk_pkl, Call_choose_surface_pkl,
            Call_choose_adsorbate_pkl, Call_add_adsorbate_onto_surface,
            Call_constrain_surface_adsorbed, Call_constrain_surface_bare, Call_find_sites] \<and>
         (\<exists>n_elems elem_str bulk mpid index bulk_str surface0 millers shft0 is_top surf_str
             adsorbate smiles bond_indices ads_str adsorbed0 cfg_str found.
            choose_n_elems weights (shd rng) = Inr (n_elems, elem_str) \<and>
            choose_bulk_pkl w bulk_database n_elems (shd (stl rng)) =
              Inr (bulk, mpid, index, bulk_str) \<and>
            choose_surface_pkl lib c w bulk index (shd (stl (stl rng))) =
              Inr (surface0, millers, shft0, is_top, surf_str) \<and>
            choose_adsorbate_pkl w adsorbate_database (shd (stl (stl (stl rng)))) =
              Inr (adsorbate, smiles, bond_indices, ads_str) \<and>
            add_adsorbate_onto_surface lib c surface0 adsorbate bond_indices
                (shd (stl (stl (stl (stl rng))))) =
              Inr (adsorbed0, cfg_str) \<and>
            adsorbed_bulk_atomsobject ad =
              adsorbed0\<lparr>constraints := constraints adsorbed0 @
                                         [map (\<lambda>s. tag s = 0) (sites adsorbed0)]\<rparr> \<and>
            bulk_atomsobject bd =
              surface0\<lparr>constraints := constraints surface0 @
                                         [map (\<lambda>s. tag s = 0) (sites surface0)]\<rparr> \<and>
            find_sites (bulk_atomsobject bd) (adsorbed_bulk_atomsobject ad) bond_indices =
              Inr found \<and>
            length found = length bond_indices \<and>
            (\<forall>k < length bond_indices.
               \<exists>a. py_get (sites adsorbed0) (int (length (sites surface0)) + bond_indices ! k) =
                     Inr a \<and>
                   found ! k = (np_round (vx (position a)) 2, np_round (vy (position a)) 2,
                                np_round (vz (position a)) 2)) \<and>
            adsorbed_bulk_metadata ad = (mpid, millers, py_round shft0 3, is_top, smiles, found) \<and>
            bulk_metadata bd = (mpid, millers, py_round shft0 3, is_top))"
proof -
  from sample_structures_run [OF assms] obtain tr where run:
    "sample_structures_calls lib c w bulk_database adsorbate_database weights rng =
       (tr, Inr (ad, bd))"
    by blast
  from sample_structures_calls_Inr [OF run] obtain n_elems elem_str bulk mpid index bulk_str
      surface0 millers shft0 is_top surf_str adsorbate smiles bond_indices ads_str adsorbed0
      cfg_str found where
    calls: "choose_n_elems weights (shd rng) = Inr (n_elems, elem_str)"
      "choose_bulk_pkl w bulk_database n_elems (shd (stl rng)) = Inr (bulk, mpid, index, bulk_str)"
      "choose_surface_pkl lib c w bulk index (shd (stl (stl rng))) =
         Inr (surface0, millers, shft0, is_top, surf_str)"
      "choose_adsorbate_pkl w adsorbate_database (shd (stl (stl (stl rng)))) =
         Inr (adsorbate, smiles, bond_indices, ads_str)"
      "add_adsorbate_onto_surface lib c surface0 adsorbate bond_indices
           (shd (stl (stl (stl (stl rng))))) =
         Inr (adsorbed0, cfg_str)"
    and fs: "find_sites (constrain_surface surface0) (constrain_surface adsorbed0) bond_indices =
         Inr found"
    and ad: "ad = \<lparr>adsorbed_bulk_atomsobject = constrain_surface adsorbed0,
                 adsorbed_bulk_metadata =
                   (mpid, millers, py_round shft0 3, is_top, smiles, found),
                 adsorbed_bulk_samplingstr =
                   (elem_str @ ''_'' @ bulk_str @ ''_'' @ surf_str) @ ''_'' @
                   (ads_str @ ''_'' @ cfg_str)\<rparr>"
    and bd: "bd = \<lparr>bulk_atomsobject = constrain_surface surface0,
                 bulk_metadata = (mpid, millers, py_round shft0 3, is_top),
                 bulk_samplingstr = elem_str @ ''_'' @ bulk_str @ ''_'' @ surf_str\<rparr>"
    and tr: "tr = [Call_choose_n_elems, Call_choose_bulk_pkl, Call_choose_surface_pkl,
                 Call_choose_adsorbate_pkl, Call_add_adsorbate_onto_surface,
                 Call_constrain_surface_adsorbed, Call_constrain_surface_bare,
                 Call_find_sites]"
    by blast
  have order: "fst (sample_structures_calls lib c w bulk_database adsorbate_database weights rng) =
           [Call_choose_n_elems, Call_choose_bulk_pkl, Call_choose_surface_pkl,
            Call_choose_adsorbate_pkl, Call_add_adsorbate_onto_surface,
            Call_constrain_surface_adsorbed, Call_constrain_surface_bare, Call_find_sites]"
    using run tr by simp
  have masks: "adsorbed_bulk_atomsobject ad =
              adsorbed0\<lparr>constraints := constraints adsorbed0 @
                                         [map (\<lambda>s. tag s = 0) (sites adsorbed0)]\<rparr>"
    "bulk_atomsobject bd =
              surface0\<lparr>constraints := constraints surface0 @
                                         [map (\<lambda>s. tag s = 0) (sites surface0)]\<rparr>"
    using ad bd by (simp_all add: constrain_surface_def)
  have found: "find_sites (bulk_atomsobject bd) (adsorbed_bulk_atomsobject ad) bond_indices =
              Inr found"
    using fs ad bd by simp
  from find_sites_Inr [OF fs] have sites: "length found = length bond_indices"
    "\<forall>k < length bond_indices.
               \<exists>a. py_get (sites adsorbed0) (int (length (sites surface0)) + bond_indices ! k) =
                     Inr a \<and>
                   found ! k = (np_round (vx (position a)) 2, np_round (vy (position a)) 2,
                                np_round (vz (position a)) 2)"
    by (simp_all add: sites_constrain_surface)
  have fields:
    "adsorbed_bulk_metadata ad = (mpid, millers, py_round shft0 3, is_top, smiles, found)"
    "bulk_metadata bd = (mpid, millers, py_round shft0 3, is_top)"
    using ad bd by simp_all
  from order calls masks found sites fields show ?thesis
    by (intro conjI exI) assumption+
qed

text \<open>
  The witness: the third raw value is 1 and the fourth 0, so the surface is the second entry
  of its file and the adsorbate the first of its file (oxygen; the third raw value would
  choose hydrogen). The masks hold the two atoms tagged 0, and the x-coordinate 5.251953125
  of the binding atom is rounded to 5.25.
\<close>

theorem sample_structures_order_and_result_witness:
  "sample_structures ex_lib ex_constants ex_world ''bulks.pkl'' ''adsorbates.pkl''
     (Some [(1, 1)]) ex_rng = Inr (ex_adsorbed_dict, ex_bulk_dict) \<and>
   fst (sample_structures_calls ex_lib ex_constants ex_world ''bulks.pkl'' ''adsorbates.pkl''
          (Some [(1, 1)]) ex_rng) =
     [Call_choose_n_elems, Call_choose_bulk_pkl, Call_choose_surface_pkl,
      Call_choose_adsorbate_pkl, Call_add_adsorbate_onto_surface,
      Call_constrain_surface_adsorbed, Call_constrain_surface_bare, Call_find_sites] \<and>
   shd (stl (stl ex_rng)) = 1 \<and> shd (stl (stl (stl ex_rng))) = 0 \<and>
   choose_surface_pkl ex_lib ex_constants ex_world ex_bulk 7 1 =
     Inr (ex_tagged_slab, (1, 0, 0), 2469 / 20000, False, ''1/2'') \<and>
   choose_adsorbate_pkl ex_world ''adsorbates.pkl'' 0 = Inr (ex_adsorbate, ''*O'', [0], ''0/2'') \<and>
   choose_adsorbate_pkl ex_world ''adsorbates.pkl'' 1 = Inr (ex_hydrogen, ''*H'', [0], ''1/2'') \<and>
   adsorbed_bulk_metadata ex_adsorbed_dict =
     (''mp-30'', (1, 0, 0), 123 / 1000, False, ''*O'', [(21 / 4, 5, 10)]) \<and>
   bulk_metadata ex_bulk_dict = (''mp-30'', (1, 0, 0), 123 / 1000, False) \<and>
   map tag (sites (adsorbed_bulk_atomsobject ex_adsorbed_dict)) = [0, 0, 1, 1, 1, 2] \<and>
   constraints (adsorbed_bulk_atomsobject ex_adsorbed_dict) =
     [[True, True, False, False, False, False]] \<and>
   constraints (bulk_atomsobject ex_bulk_dict) = [[True, True, False, False, False]] \<and>
   position (sites (adsorbed_bulk_atomsobject ex_adsorbed_dict) ! 5) = (2689 / 512, 5, 10)"
proof -
  from sample_structures_order_and_result [OF ex_sample]
  have order: "fst (sample_structures_calls ex_lib ex_constants ex_world ''bulks.pkl''
          ''adsorbates.pkl'' (Some [(1, 1)]) ex_rng) =
     [Call_choose_n_elems, Call_choose_bulk_pkl, Call_choose_surface_pkl,
      Call_choose_adsorbate_pkl, Call_add_adsorbate_onto_surface,
      Call_constrain_surface_adsorbed, Call_constrain_surface_bare, Call_find_sites]"
    by blast
  have rest: "shd (stl (stl ex_rng)) = 1" "shd (stl (stl (stl ex_rng))) = 0"
    "adsorbed_bulk_metadata ex_adsorbed_dict =
       (''mp-30'', (1, 0, 0), 123 / 1000, False, ''*O'', [(21 / 4, 5, 10)])"
    "bulk_metadata ex_bulk_dict = (''mp-30'', (1, 0, 0), 123 / 1000, False)"
    "map tag (sites (adsorbed_bulk_atomsobject ex_adsorbed_dict)) = [0, 0, 1, 1, 1, 2]"
    "constraints (adsorbed_bulk_atomsobject ex_adsorbed_dict) =
       [[True, True, False, False, False, False]]"
    "constraints (bulk_atomsobject ex_bulk_dict) = [[True, True, False, False, False]]"
    "position (sites (adsorbed_bulk_atomsobject ex_adsorbed_dict) ! 5) = (2689 / 512, 5, 10)"
    by (simp_all add: ex_rng_def ex_adsorbed_dict_def ex_bulk_dict_def constrain_surface_def
        ex_adslab_def ex_tagged_slab_def mk_atoms_def mk_atom_def place_def)
  from order rest ex_sample ex_choose_surface ex_choose_adsorbate ex_choose_hydrogen
  show ?thesis by simp
qed

section \<open>Properties of the sampling strings\<close>









section \<open>Properties of the tags\<close>



lemma set_tags_Inr:
  assumes "set_tags a tags = Inr a'"
  shows "length tags = length (sites a) \<and> map tag (sites a') = tags"
proof -
  from assms have len: "length tags = length (sites a)"
    and a': "a' = a\<lparr>sites := map (\<lambda>(s, t). s\<lparr>tag := t\<rparr>) (zip (sites a) tags)\<rparr>"
    by (auto simp: set_tags_def split: if_splits)
  from len have "map tag (map (\<lambda>(s, t). s\<lparr>tag := t\<rparr>) (zip (sites a) tags)) = tags"
    by (intro nth_equalityI) simp_all
  with len a' show ?thesis by simp
qed


lemma convert_adsorbate_tags:
  assumes "convert_adsorbate_atoms_to_gratoms lib a = Inr g"
  shows "map tag (sites g) = replicate (length (sites a)) 2"
  using set_tags_Inr [of "a\<lparr>edges := get_connectivity lib a\<rparr>" "replicate (length (sites a)) 2" g] assms
  by (simp add: convert_adsorbate_atoms_to_gratoms_def Let_def)

lemma convert_adsorbate_length:
  assumes "convert_adsorbate_atoms_to_gratoms lib a = Inr g"
  shows "length (sites g) = length (sites a)"
proof -
  from convert_adsorbate_tags [OF assms]
  have "length (map tag (sites g)) = length (replicate (length (sites a)) (2 :: int))"
    by simp
  then show ?thesis by simp
qed

subsection \<open>The tags of the adsorbed structure are those of the builder's configuration\<close>

text \<open>
  \<^verbatim>\<open>add_adsorbate_onto_surface\<close> hands the builder a slab tagged 0 and 1 and an adsorbate
  tagged 2, and returns one of the configurations of the builder as it is: after the
  builder the code reads the tags (\<^verbatim>\<open>is_config_reasonable\<close>, \<^verbatim>\<open>constrain_surface\<close>) and never
  writes them. The \<^verbatim>\<open>catkit\<close> builder appends the atoms of the adsorbate to a copy of the
  slab, tags included. With a builder that would write the tag 0 on every atom instead, the
  same code returns the adsorbate atom with the tag 0:
\<close>

lemma ex_retag_convert:
  "convert_adsorbate_atoms_to_gratoms ex_retag_lib ex_adsorbate =
     Inr (ex_adsorbate\<lparr>sites := [mk_atom ''O'' 0 2], edges := [[0]]\<rparr>)"
  by (simp add: convert_adsorbate_atoms_to_gratoms_def get_connectivity_def ex_retag_lib_def
      ex_lib_def ex_adsorbate_def mk_atoms_def mk_atom_def set_tags_def)

lemma ex_retag_builder_out:
  "builder_add_adsorbate ex_retag_lib
     (ex_tagged_slab\<lparr>gratoms_surface_atoms := [2, 3, 4], pbc := (True, True, False)\<rparr>)
     (ex_adsorbate\<lparr>sites := [mk_atom ''O'' 0 2], edges := [[0]]\<rparr>) bonds =
   Inr [ex_retag_adslab 1, ex_retag_adslab (81 / 100), ex_retag_adslab (6 / 5)]"
  by (simp add: ex_retag_lib_def ex_retag_builder_def ex_tagged_slab_def ex_adsorbate_def
      ex_retag_adslab_def mk_atoms_def mk_atom_def place_def)

lemma ex_retag_reasonable: "is_config_reasonable ex_retag_lib ex_constants (ex_retag_adslab z) = Inr True"
  by (simp add: is_config_reasonable_def adsorbate_indices_of_def ex_retag_adslab_def mk_atom_def
      place_def)

lemma ex_retag_add_adsorbate:
  "add_adsorbate_onto_surface ex_retag_lib ex_constants ex_tagged_slab ex_adsorbate [0] 0 =
     Inr (ex_retag_adslab 1, ''0/3'') \<and>
   symbol (sites (ex_retag_adslab 1) ! 5) = ''O'' \<and> tag (sites (ex_retag_adslab 1) ! 5) = 0"
proof -
  have idx: "filter (\<lambda>i. tag (sites ex_tagged_slab ! i) = 1) [0 ..< length (sites ex_tagged_slab)] = [2, 3, 4]"
    by (simp add: ex_tagged_slab_def mk_atoms_def mk_atom_def)
  have run: "add_adsorbate_onto_surface ex_retag_lib ex_constants ex_tagged_slab ex_adsorbate [0] 0 =
     Inr (ex_retag_adslab 1, ''0/3'')"
    unfolding add_adsorbate_onto_surface_def idx Let_def ex_retag_convert
    by (simp add: ebind_def ex_retag_builder_out ex_retag_reasonable random_choice_def py_get_def
        str_nat_digit)
  have "symbol (sites (ex_retag_adslab 1) ! 5) = ''O''" "tag (sites (ex_retag_adslab 1) ! 5) = 0"
    by (simp_all add: ex_retag_adslab_def mk_atom_def place_def)
  with run show ?thesis by simp
qed



text \<open>
  The constant is read: on a library that has one Miller index up to 1 and none up to 0,
  the enumeration follows \<^verbatim>\<open>MAX_MILLER\<close> whatever the argument is.
\<close>

lemma enumerate_surfaces_reads_constant:
  "enumerate_surfaces ex_miller_lib ex_constants ex_bulk 0 = [(ex_slab, (1, 0, 0), 1 / 4, True)] \<and>
   enumerate_surfaces ex_miller_lib (ex_constants\<lparr>MAX_MILLER := 0\<rparr>) ex_bulk 2 = []"
  by (simp add: enumerate_surfaces_def ex_miller_lib_def ex_lib_def ex_constants_def
      standardize_bulk_def is_structure_invertible_def)

end
